theory Spec2Isabelle
  imports Complex_Main "HOL-Library.Sublist" "HOL-Library.Multiset"
begin

section \<open>Secular equilibrium calculator: data model\<close>

text \<open>
  The calculator of \<^verbatim>\<open>secular_equilibrium/calculator.py\<close>. Python floats are modelled
  as real numbers: a float that the code compares with \<^verbatim>\<open>float('inf')\<close> is a
  \<open>pyfloat\<close>, which is a real or plus infinity; rounding is not modelled there. The
  three quotients behind the uncertainty of an ancestor are given a second time on
  doubles, with the rounding of binary64 (\<open>ancestor_quotients\<close>). A float
  division raises \<^verbatim>\<open>ZeroDivisionError\<close> on a zero divisor, and the model keeps that
  branch at every division of the source.

  Strings are byte lists (UTF-8); \<^verbatim>\<open>a in b\<close> on strings is the contiguous-sublist
  test, which on UTF-8 agrees with the test on code points.
\<close>

datatype pyfloat = Fin real | PosInf

datatype error = ValueError string | ZeroDivisionError | ProviderError string

text \<open>
  The data provider (\<^verbatim>\<open>radioactivedecay\<close>, not part of the repository) is a
  parameter \<open>rd\<close>: \<open>rd name\<close> is \<open>None\<close> where \<^verbatim>\<open>rd.Nuclide(name)\<close> raises, and
  otherwise the object whose methods the calculator calls. \<open>ProviderError\<close> is the
  exception of \<^verbatim>\<open>rd.Nuclide\<close> at the two calls that the source does not wrap in a
  \<^verbatim>\<open>try\<close>; both calls come after a successful look-up of the same name, and the
  lemmas \<open>nocache_error_is_ValueError\<close> and \<open>calculate_abort\<close> show that the
  error never arises.
\<close>

record rd_nuclide =
  rd_half_life_s :: pyfloat
  rd_atomic_mass :: real
  rd_decay_modes :: "string list"
  rd_branching_fractions :: "real list"
  rd_progeny :: "string list"

type_synonym provider = "string \<Rightarrow> rd_nuclide option"

record path =
  nodes :: "string list"
  decay_modes :: "string list"
  step_branching_fractions :: "real list"
  chain_branching_ratio :: real

record path_detail = path +
  decay_type_fraction_at_measured :: real
  path_branching_ratio :: real

record branching_info =
  info_branching_ratio :: real
  info_paths :: "path_detail list"
  info_decay_type_fraction_at_measured :: real

text \<open>
  A result dictionary of \<^verbatim>\<open>calculate\<close>: a key that a record may lack is an option.
  \<open>relative_uncertainty\<close> is \<open>Some None\<close> when the key is present with value
  \<^verbatim>\<open>None\<close>.
\<close>

record result =
  activity_Bq :: real
  mass_g :: pyfloat
  branching_ratio :: real
  halflife_yr :: pyfloat
  atomic_mass :: "real option"
  error :: "string option"
  activity_uncertainty_Bq :: "real option"
  mass_uncertainty_g :: "pyfloat option"
  relative_uncertainty :: "real option option"
  paths :: "path_detail list option"
  total_branching_ratio :: "real option"

record calculator =
  measured_nuclide :: string
  measured_activity :: real
  parent_nuclides :: "string list"
  decay_type :: "string option"
  measured_activity_uncertainty :: "real option"
  include_paths :: bool
  branching_cache :: "(string \<times> string \<times> string option) \<rightharpoonup> branching_info"
  decay_fraction_cache :: "(string \<times> string) \<rightharpoonup> real"

section \<open>Operations\<close>

definition MAX_DEPTH :: nat where
  "MAX_DEPTH = 30"

definition alpha :: string where
  "alpha = [CHR 0xCE, CHR 0xB1]"

definition beta :: string where
  "beta = [CHR 0xCE, CHR 0xB2]"

definition VALID_DECAY_TYPES :: "string list" where
  "VALID_DECAY_TYPES =
     [alpha, beta @ ''-'', beta @ ''+'', ''EC'', ''SF'', ''IT'', ''p'', ''n'', ''d'', ''t'']"

definition py_in :: "string \<Rightarrow> string \<Rightarrow> bool" where
  "py_in sub s = sublist sub s"

definition py_div :: "real \<Rightarrow> real \<Rightarrow> error + real" where
  "py_div a b = (if b = 0 then Inl ZeroDivisionError else Inr (a / b))"

fun zip3 :: "'a list \<Rightarrow> 'b list \<Rightarrow> 'c list \<Rightarrow> ('a \<times> 'b \<times> 'c) list" where
  "zip3 (x # xs) (y # ys) (z # zs) = (x, y, z) # zip3 xs ys zs"
| "zip3 _ _ _ = []"

definition is_nuclide_name :: "provider \<Rightarrow> string \<Rightarrow> bool" where
  "is_nuclide_name rd name = (case rd name of None \<Rightarrow> False | Some _ \<Rightarrow> True)"

subsection \<open>The decay-type fraction of a nuclide\<close>

text \<open>The loop of \<^verbatim>\<open>_get_decay_fraction_for_nuclide\<close> over \<^verbatim>\<open>zip(modes, fractions)\<close>.\<close>

fun matching_fraction :: "string \<Rightarrow> (string \<times> real) list \<Rightarrow> real \<Rightarrow> real" where
  "matching_fraction dt [] acc = acc"
| "matching_fraction dt ((mode, fraction) # rest) acc =
     matching_fraction dt rest (if py_in dt mode then acc + fraction else acc)"

definition get_decay_fraction_for_nuclide ::
  "provider \<Rightarrow> calculator \<Rightarrow> string \<Rightarrow> (error + real) \<times> calculator" where
  "get_decay_fraction_for_nuclide rd s nuclide =
     (case decay_type s of
        None \<Rightarrow> (Inr 1, s)
      | Some dt \<Rightarrow>
          (case decay_fraction_cache s (nuclide, dt) of
             Some v \<Rightarrow> (Inr v, s)
           | None \<Rightarrow>
               (case rd nuclide of
                  None \<Rightarrow> (Inl (ProviderError nuclide), s)
                | Some target_nuclide \<Rightarrow>
                    (let m = matching_fraction dt
                               (zip (rd_decay_modes target_nuclide)
                                    (rd_branching_fractions target_nuclide)) 0
                     in (Inr m,
                         s\<lparr>decay_fraction_cache :=
                              (decay_fraction_cache s)((nuclide, dt) \<mapsto> m)\<rparr>)))))"

subsection \<open>The path enumerator\<close>

text \<open>
  The nested \<^verbatim>\<open>dfs\<close>: it appends to the shared list \<^verbatim>\<open>paths\<close> in the order of the
  traversal, so the model returns the paths of a call in that order and the loop over
  the children concatenates them.
\<close>

function dfs ::
  "provider \<Rightarrow> string \<Rightarrow> string \<Rightarrow> string set \<Rightarrow> string list \<Rightarrow> string list \<Rightarrow>
   real list \<Rightarrow> real \<Rightarrow> nat \<Rightarrow> path list" where
  "dfs rd progeny current visited nds modes step_fractions cumulative_ratio depth =
     (if depth > MAX_DEPTH then []
      else if current = progeny then
        [\<lparr>nodes = nds, decay_modes = modes, step_branching_fractions = step_fractions,
          chain_branching_ratio = cumulative_ratio\<rparr>]
      else
        (case rd current of
           None \<Rightarrow> []
         | Some nuclide \<Rightarrow>
             concat (map (\<lambda>(mode, fraction, child).
                 if \<not> is_nuclide_name rd child then []
                 else if child \<in> visited then []
                 else dfs rd progeny child (insert child visited) (nds @ [child])
                        (modes @ [mode]) (step_fractions @ [fraction])
                        (cumulative_ratio * fraction) (depth + 1))
               (zip3 (rd_decay_modes nuclide) (rd_branching_fractions nuclide)
                     (rd_progeny nuclide)))))"
  by pat_completeness auto
termination
  by (relation "measure (\<lambda>(rd, progeny, current, visited, nds, modes, fs, r, depth).
        Suc MAX_DEPTH - depth)") auto

definition enumerate_chain_paths :: "provider \<Rightarrow> string \<Rightarrow> string \<Rightarrow> path list" where
  "enumerate_chain_paths rd parent progeny =
     (if parent = progeny then
        [\<lparr>nodes = [parent], decay_modes = [], step_branching_fractions = [],
          chain_branching_ratio = 1\<rparr>]
      else dfs rd progeny parent {parent} [parent] [] [] 1 0)"

subsection \<open>The branching aggregator\<close>

definition invalid_progeny_msg :: "string \<Rightarrow> string" where
  "invalid_progeny_msg progeny = ''Invalid progeny nuclide name: '' @ progeny"

definition stable_msg :: "string \<Rightarrow> string" where
  "stable_msg progeny =
     progeny @ '' is a stable nuclide and cannot establish secular equilibrium''"

definition not_in_chain_msg :: "string \<Rightarrow> string \<Rightarrow> string" where
  "not_in_chain_msg progeny parent =
     progeny @ '' is not in '' @ parent @ [CHR 0x27] @ ''s decay chain''"

text \<open>The loop of \<^verbatim>\<open>_get_branching_info\<close> over \<^verbatim>\<open>chain_paths\<close>.\<close>

fun path_contributions ::
  "real \<Rightarrow> path list \<Rightarrow> path_detail list \<Rightarrow> real \<Rightarrow> path_detail list \<times> real" where
  "path_contributions decay_type_fraction [] path_details total_ratio =
     (path_details, total_ratio)"
| "path_contributions decay_type_fraction (p # rest) path_details total_ratio =
     (let path_ratio = chain_branching_ratio p * decay_type_fraction;
          details = \<lparr>nodes = nodes p, decay_modes = decay_modes p,
                     step_branching_fractions = step_branching_fractions p,
                     chain_branching_ratio = chain_branching_ratio p,
                     decay_type_fraction_at_measured = decay_type_fraction,
                     path_branching_ratio = path_ratio\<rparr>
      in path_contributions decay_type_fraction rest (path_details @ [details])
           (total_ratio + path_ratio))"

text \<open>
  \<^verbatim>\<open>path_details.sort(key=..., reverse=True)\<close>: a stable sort, descending in the
  contribution.
\<close>

definition sort_paths :: "path_detail list \<Rightarrow> path_detail list" where
  "sort_paths ps = sort_key (\<lambda>d. - path_branching_ratio d) ps"

definition get_branching_info ::
  "provider \<Rightarrow> calculator \<Rightarrow> string \<Rightarrow> string \<Rightarrow> (error + branching_info) \<times> calculator" where
  "get_branching_info rd s parent progeny =
     (case branching_cache s (parent, progeny, decay_type s) of
        Some info \<Rightarrow> (Inr info, s)
      | None \<Rightarrow>
          (case rd progeny of
             None \<Rightarrow> (Inl (ValueError (invalid_progeny_msg progeny)), s)
           | Some progeny_nuclide \<Rightarrow>
               if rd_half_life_s progeny_nuclide = PosInf
               then (Inl (ValueError (stable_msg progeny)), s)
               else
                 (let chain_paths = enumerate_chain_paths rd parent progeny in
                  if chain_paths = []
                  then (Inl (ValueError (not_in_chain_msg progeny parent)), s)
                  else
                    (case (if decay_type s \<noteq> None \<and> parent \<noteq> progeny
                           then get_decay_fraction_for_nuclide rd s progeny
                           else (Inr 1, s)) of
                       (Inl e, s1) \<Rightarrow> (Inl e, s1)
                     | (Inr decay_type_fraction, s1) \<Rightarrow>
                         (case path_contributions decay_type_fraction chain_paths [] 0 of
                            (path_details, total_ratio) \<Rightarrow>
                              if total_ratio < 1 / 10 ^ 15
                              then (Inl (ValueError (not_in_chain_msg progeny parent)), s1)
                              else
                                (let info = \<lparr>info_branching_ratio = total_ratio,
                                             info_paths = sort_paths path_details,
                                             info_decay_type_fraction_at_measured =
                                               decay_type_fraction\<rparr>
                                 in (Inr info,
                                     s1\<lparr>branching_cache :=
                                          (branching_cache s1)
                                            ((parent, progeny, decay_type s) \<mapsto> info)\<rparr>)))))))"

definition get_branching_ratio ::
  "provider \<Rightarrow> calculator \<Rightarrow> string \<Rightarrow> string \<Rightarrow> (error + real) \<times> calculator" where
  "get_branching_ratio rd s parent progeny =
     (case get_branching_info rd s parent progeny of
        (Inl e, s1) \<Rightarrow> (Inl e, s1)
      | (Inr info, s1) \<Rightarrow> (Inr (info_branching_ratio info), s1))"

subsection \<open>The equilibrium calculator\<close>

definition avogadro_number :: real where
  "avogadro_number = 602214076 * 10 ^ 15"

definition seconds_per_year :: real where
  "seconds_per_year = 36525 / 100 * 24 * 3600"

text \<open>The record that \<^verbatim>\<open>calculate\<close> stores when \<^verbatim>\<open>_get_branching_info\<close> raises \<^verbatim>\<open>ValueError\<close>.\<close>

definition failure_result :: "calculator \<Rightarrow> string \<Rightarrow> result" where
  "failure_result s msg =
     \<lparr>activity_Bq = 0, mass_g = Fin 0, branching_ratio = 0, halflife_yr = Fin 0,
      atomic_mass = None, error = Some msg,
      activity_uncertainty_Bq = None, mass_uncertainty_g = None,
      relative_uncertainty = None,
      paths = (if include_paths s then Some [] else None),
      total_branching_ratio = (if include_paths s then Some 0 else None)\<rparr>"

text \<open>
  The body of the loop of \<^verbatim>\<open>calculate\<close> after the \<^verbatim>\<open>try\<close>: the record of an ancestor
  whose branching info was found. \<^verbatim>\<open>mass_coefficient\<close> is \<^verbatim>\<open>None\<close> exactly when the
  half-life is infinite, so the two tests of the source for an infinite half-life are
  the two case distinctions on it. The last division is guarded by the test
  \<^verbatim>\<open>parent_activity == 0.0\<close>. The quotients are exact here; \<open>ancestor_quotients\<close>
  has those of lines 330, 354 and 363 as the doubles that the code stores.
\<close>

definition parent_result ::
  "provider \<Rightarrow> calculator \<Rightarrow> string \<Rightarrow> branching_info \<Rightarrow> error + result" where
  "parent_result rd s parent info =
     (let br = info_branching_ratio info in
      case py_div (measured_activity s) br of
        Inl e \<Rightarrow> Inl e
      | Inr parent_activity \<Rightarrow>
          (case rd parent of
             None \<Rightarrow> Inl (ProviderError parent)
           | Some parent_nuclide \<Rightarrow>
               (let parent_halflife_s = rd_half_life_s parent_nuclide;
                    parent_halflife_yr =
                      (case parent_halflife_s of
                         PosInf \<Rightarrow> PosInf
                       | Fin h \<Rightarrow> Fin (h / seconds_per_year));
                    parent_mass_amu = rd_atomic_mass parent_nuclide
                in case (case parent_halflife_s of
                           PosInf \<Rightarrow> Inr None
                         | Fin h \<Rightarrow>
                             (case py_div (ln 2) h of
                                Inl e \<Rightarrow> Inl e
                              | Inr lambda_parent \<Rightarrow>
                                  (case py_div parent_mass_amu
                                          (avogadro_number * lambda_parent) of
                                     Inl e \<Rightarrow> Inl e
                                   | Inr c \<Rightarrow> Inr (Some c)))) of
                     Inl e \<Rightarrow> Inl e
                   | Inr mass_coefficient \<Rightarrow>
                       (let parent_mass =
                              (case mass_coefficient of
                                 None \<Rightarrow> PosInf
                               | Some c \<Rightarrow> Fin (parent_activity * c));
                            r = \<lparr>activity_Bq = parent_activity, mass_g = parent_mass,
                                 branching_ratio = br, halflife_yr = parent_halflife_yr,
                                 atomic_mass = Some parent_mass_amu, error = None,
                                 activity_uncertainty_Bq = None, mass_uncertainty_g = None,
                                 relative_uncertainty = None,
                                 paths = (if include_paths s then Some (info_paths info)
                                          else None),
                                 total_branching_ratio =
                                   (if include_paths s then Some br else None)\<rparr>
                        in case measured_activity_uncertainty s of
                             None \<Rightarrow> Inr r
                           | Some u \<Rightarrow>
                               (case py_div u br of
                                  Inl e \<Rightarrow> Inl e
                                | Inr activity_uncertainty \<Rightarrow>
                                    Inr (r\<lparr>activity_uncertainty_Bq := Some activity_uncertainty,
                                           mass_uncertainty_g :=
                                             Some (case mass_coefficient of
                                                     None \<Rightarrow> PosInf
                                                   | Some c \<Rightarrow> Fin (activity_uncertainty * c)),
                                           relative_uncertainty :=
                                             Some (if parent_activity = 0 then None
                                                   else Some (activity_uncertainty /
                                                              \<bar>parent_activity\<bar>))\<rparr>))))))"

text \<open>
  The loop of \<^verbatim>\<open>calculate\<close> over \<^verbatim>\<open>self.parent_nuclides\<close>. Only \<^verbatim>\<open>ValueError\<close> is
  caught; any other exception leaves the loop and \<^verbatim>\<open>calculate\<close>.
\<close>

fun calculate_loop ::
  "provider \<Rightarrow> calculator \<Rightarrow> string list \<Rightarrow> (string \<rightharpoonup> result) \<Rightarrow>
   (error + (string \<rightharpoonup> result)) \<times> calculator" where
  "calculate_loop rd s [] results = (Inr results, s)"
| "calculate_loop rd s (parent # rest) results =
     (case get_branching_info rd s parent (measured_nuclide s) of
        (Inl e, s1) \<Rightarrow>
          (case e of
             ValueError msg \<Rightarrow>
               calculate_loop rd s1 rest (results(parent \<mapsto> failure_result s1 msg))
           | _ \<Rightarrow> (Inl e, s1))
      | (Inr info, s1) \<Rightarrow>
          (case parent_result rd s1 parent info of
             Inl e \<Rightarrow> (Inl e, s1)
           | Inr r \<Rightarrow> calculate_loop rd s1 rest (results(parent \<mapsto> r))))"

definition calculate ::
  "provider \<Rightarrow> calculator \<Rightarrow> (error + (string \<rightharpoonup> result)) \<times> calculator" where
  "calculate rd s = calculate_loop rd s (parent_nuclides s) Map.empty"

subsection \<open>Construction\<close>

text \<open>
  \<^verbatim>\<open>_validate_nuclides\<close>. The decay type is the value that \<^verbatim>\<open>_normalize_decay_type\<close>
  returned, which is stripped already, so \<^verbatim>\<open>strip() == ''\<close> is the test for the empty
  string.
\<close>

definition validate_nuclides :: "provider \<Rightarrow> calculator \<Rightarrow> error + unit" where
  "validate_nuclides rd s =
     (if \<not> is_nuclide_name rd (measured_nuclide s)
      then Inl (ValueError (''Invalid measured nuclide name: '' @ measured_nuclide s))
      else
        (case find (\<lambda>p. \<not> is_nuclide_name rd p) (parent_nuclides s) of
           Some p \<Rightarrow> Inl (ValueError (''Invalid parent nuclide name: '' @ p))
         | None \<Rightarrow>
             (case (case decay_type s of
                      None \<Rightarrow> Inr ()
                    | Some dt \<Rightarrow>
                        if dt = []
                        then Inl (ValueError (''Invalid decay type: '' @ dt @
                                              ''. Must be a non-empty string.''))
                        else if dt \<notin> set VALID_DECAY_TYPES
                        then Inl (ValueError (''Invalid decay type: '' @ dt @
                                              ''. Valid types: '' @
                                              foldr (\<lambda>t acc. if acc = [] then t
                                                              else t @ '', '' @ acc)
                                                    VALID_DECAY_TYPES []))
                        else Inr ()) of
                Inl e \<Rightarrow> Inl e
              | Inr _ \<Rightarrow>
                  (case measured_activity_uncertainty s of
                     None \<Rightarrow> Inr ()
                   | Some u \<Rightarrow>
                       if u < 0
                       then Inl (ValueError ''measured_activity_uncertainty must be >= 0'')
                       else Inr ()))))"

text \<open>
  \<^verbatim>\<open>__init__\<close>, from the normalised decay type on: the argument \<open>dt\<close> is what
  \<^verbatim>\<open>_normalize_decay_type\<close> returned, and both caches start empty.
\<close>

definition init ::
  "provider \<Rightarrow> string \<Rightarrow> real \<Rightarrow> string list \<Rightarrow> string option \<Rightarrow> real option \<Rightarrow> bool \<Rightarrow>
   error + calculator" where
  "init rd measured activity parents dt uncertainty with_paths =
     (let s = \<lparr>measured_nuclide = measured, measured_activity = activity,
                parent_nuclides = parents, decay_type = dt,
                measured_activity_uncertainty = uncertainty,
                include_paths = with_paths,
                branching_cache = Map.empty, decay_fraction_cache = Map.empty\<rparr>
      in case validate_nuclides rd s of
           Inl e \<Rightarrow> Inl e
         | Inr _ \<Rightarrow> Inr s)"


subsection \<open>The quotients of an ancestor on doubles\<close>

text \<open>
  Lines 330, 354 and 360 to 363 of \<^verbatim>\<open>calculate\<close> once more, on IEEE doubles: the three
  divisions whose rounding the relation between the stored activity and the stored
  uncertainty depends on. A double is a real number, plus or minus infinity or
  not-a-number; the two zeros are one value (they are equal in Python, and a division
  by either raises). \<open>round64\<close> is the rounding of binary64: to the nearest multiple of
  the unit in the last place of the binade, ties to the even multiple, with the
  subnormal spacing below \<open>2\<^sup>-\<^sup>1\<^sup>0\<^sup>2\<^sup>2\<close> and infinity from \<open>2\<^sup>1\<^sup>0\<^sup>2\<^sup>4\<close> on.
\<close>

datatype double = Dbl real | DInf | DNegInf | DNaN

definition rne :: "real \<Rightarrow> int" where
  "rne q =
     (let f = \<lfloor>q\<rfloor>; r = q - of_int f
      in if r < 1 / 2 then f
         else if 1 / 2 < r then f + 1
         else if even f then f else f + 1)"

definition binade :: "real \<Rightarrow> int" where
  "binade x = max \<lfloor>log 2 \<bar>x\<bar>\<rfloor> (- 1022)"

definition round_real :: "real \<Rightarrow> real" where
  "round_real x =
     (if x = 0 then 0
      else of_int (rne (x / 2 powi (binade x - 52))) * 2 powi (binade x - 52))"

definition round64 :: "real \<Rightarrow> double" where
  "round64 x =
     (let y = round_real x
      in if 2 ^ 1024 \<le> y then DInf
         else if y \<le> - (2 ^ 1024) then DNegInf
         else Dbl y)"

text \<open>Python's \<^verbatim>\<open>/\<close> and \<^verbatim>\<open>abs\<close> on floats: a zero divisor raises before anything else.\<close>

definition float_div :: "double \<Rightarrow> double \<Rightarrow> error + double" where
  "float_div a b =
     (case b of
        Dbl y \<Rightarrow>
          if y = 0 then Inl ZeroDivisionError
          else
            (case a of
               Dbl x \<Rightarrow> Inr (round64 (x / y))
             | DInf \<Rightarrow> Inr (if 0 < y then DInf else DNegInf)
             | DNegInf \<Rightarrow> Inr (if 0 < y then DNegInf else DInf)
             | DNaN \<Rightarrow> Inr DNaN)
      | DNaN \<Rightarrow> Inr DNaN
      | _ \<Rightarrow>
          (case a of
             Dbl x \<Rightarrow> Inr (Dbl 0)
           | _ \<Rightarrow> Inr DNaN))"

definition float_abs :: "double \<Rightarrow> double" where
  "float_abs a =
     (case a of Dbl x \<Rightarrow> Dbl \<bar>x\<bar> | DInf \<Rightarrow> DInf | DNegInf \<Rightarrow> DInf | DNaN \<Rightarrow> DNaN)"

text \<open>
  The ancestor activity, the activity uncertainty and the relative uncertainty of an
  ancestor, for a measured activity, a supplied uncertainty and a branching ratio.
\<close>

definition ancestor_quotients ::
  "double \<Rightarrow> double \<Rightarrow> double \<Rightarrow> error + (double \<times> double \<times> double option)" where
  "ancestor_quotients measured_act uncertainty br =
     (case float_div measured_act br of
        Inl e \<Rightarrow> Inl e
      | Inr parent_activity \<Rightarrow>
          (case float_div uncertainty br of
             Inl e \<Rightarrow> Inl e
           | Inr activity_uncertainty \<Rightarrow>
               if parent_activity = Dbl 0
               then Inr (parent_activity, activity_uncertainty, None)
               else
                 (case float_div activity_uncertainty (float_abs parent_activity) of
                    Inl e \<Rightarrow> Inl e
                  | Inr rel \<Rightarrow> Inr (parent_activity, activity_uncertainty, Some rel))))"

section \<open>The computation with the caches removed\<close>

text \<open>
  The same functions without the two cache look-ups and the two cache updates: they
  read the provider and the decay type only, and have no state to return.
\<close>

definition decay_fraction_nocache :: "provider \<Rightarrow> string option \<Rightarrow> string \<Rightarrow> error + real" where
  "decay_fraction_nocache rd dto nuclide =
     (case dto of
        None \<Rightarrow> Inr 1
      | Some dt \<Rightarrow>
          (case rd nuclide of
             None \<Rightarrow> Inl (ProviderError nuclide)
           | Some target_nuclide \<Rightarrow>
               Inr (matching_fraction dt
                      (zip (rd_decay_modes target_nuclide)
                           (rd_branching_fractions target_nuclide)) 0)))"

definition branching_info_nocache ::
  "provider \<Rightarrow> string option \<Rightarrow> string \<Rightarrow> string \<Rightarrow> error + branching_info" where
  "branching_info_nocache rd dto parent progeny =
     (case rd progeny of
        None \<Rightarrow> Inl (ValueError (invalid_progeny_msg progeny))
      | Some progeny_nuclide \<Rightarrow>
          if rd_half_life_s progeny_nuclide = PosInf
          then Inl (ValueError (stable_msg progeny))
          else
            (let chain_paths = enumerate_chain_paths rd parent progeny in
             if chain_paths = []
             then Inl (ValueError (not_in_chain_msg progeny parent))
             else
               (case (if dto \<noteq> None \<and> parent \<noteq> progeny
                      then decay_fraction_nocache rd dto progeny
                      else Inr 1) of
                  Inl e \<Rightarrow> Inl e
                | Inr decay_type_fraction \<Rightarrow>
                    (case path_contributions decay_type_fraction chain_paths [] 0 of
                       (path_details, total_ratio) \<Rightarrow>
                         if total_ratio < 1 / 10 ^ 15
                         then Inl (ValueError (not_in_chain_msg progeny parent))
                         else Inr \<lparr>info_branching_ratio = total_ratio,
                                   info_paths = sort_paths path_details,
                                   info_decay_type_fraction_at_measured =
                                     decay_type_fraction\<rparr>))))"

fun calculate_loop_nocache ::
  "provider \<Rightarrow> calculator \<Rightarrow> string list \<Rightarrow> (string \<rightharpoonup> result) \<Rightarrow>
   error + (string \<rightharpoonup> result)" where
  "calculate_loop_nocache rd s [] results = Inr results"
| "calculate_loop_nocache rd s (parent # rest) results =
     (case branching_info_nocache rd (decay_type s) parent (measured_nuclide s) of
        Inl e \<Rightarrow>
          (case e of
             ValueError msg \<Rightarrow>
               calculate_loop_nocache rd s rest (results(parent \<mapsto> failure_result s msg))
           | _ \<Rightarrow> Inl e)
      | Inr info \<Rightarrow>
          (case parent_result rd s parent info of
             Inl e \<Rightarrow> Inl e
           | Inr r \<Rightarrow> calculate_loop_nocache rd s rest (results(parent \<mapsto> r))))"

definition calculate_nocache :: "provider \<Rightarrow> calculator \<Rightarrow> error + (string \<rightharpoonup> result)" where
  "calculate_nocache rd s = calculate_loop_nocache rd s (parent_nuclides s) Map.empty"

text \<open>
  The invariant of the two caches of an instance: an entry under the instance's decay
  type holds what the computation without caches returns. Entries under another decay
  type are never read.
\<close>

definition cache_ok :: "provider \<Rightarrow> calculator \<Rightarrow> bool" where
  "cache_ok rd s \<longleftrightarrow>
     (\<forall>parent progeny info.
        branching_cache s (parent, progeny, decay_type s) = Some info \<longrightarrow>
        branching_info_nocache rd (decay_type s) parent progeny = Inr info) \<and>
     (\<forall>nuclide dt v.
        decay_type s = Some dt \<longrightarrow> decay_fraction_cache s (nuclide, dt) = Some v \<longrightarrow>
        decay_fraction_nocache rd (Some dt) nuclide = Inr v)"

text \<open>Two states of one instance: they differ in the caches only.\<close>

definition same_config :: "calculator \<Rightarrow> calculator \<Rightarrow> bool" where
  "same_config s t \<longleftrightarrow>
     measured_nuclide t = measured_nuclide s \<and>
     measured_activity t = measured_activity s \<and>
     parent_nuclides t = parent_nuclides s \<and>
     decay_type t = decay_type s \<and>
     measured_activity_uncertainty t = measured_activity_uncertainty s \<and>
     include_paths t = include_paths s"

section \<open>A small decay network\<close>

text \<open>
  A provider with five nuclides, for evaluating the functions: \<open>A\<close> decays to \<open>B\<close> and
  to \<open>C\<close>, both decay to \<open>D\<close>, which decays to the stable \<open>E\<close> or fissions (the
  child token \<open>SF\<close> is not a nuclide); \<open>Z\<close> has half-life zero and no decays.
\<close>

definition demo_rd :: provider where
  "demo_rd name =
     (if name = ''A'' then
        Some \<lparr>rd_half_life_s = Fin 1000000, rd_atomic_mass = 238,
              rd_decay_modes = [alpha, beta @ ''-''],
              rd_branching_fractions = [3 / 4, 1 / 4],
              rd_progeny = [''B'', ''C'']\<rparr>
      else if name = ''B'' then
        Some \<lparr>rd_half_life_s = Fin 100, rd_atomic_mass = 234,
              rd_decay_modes = [beta @ ''-''],
              rd_branching_fractions = [1],
              rd_progeny = [''D'']\<rparr>
      else if name = ''C'' then
        Some \<lparr>rd_half_life_s = Fin 50, rd_atomic_mass = 238,
              rd_decay_modes = [alpha],
              rd_branching_fractions = [1],
              rd_progeny = [''D'']\<rparr>
      else if name = ''D'' then
        Some \<lparr>rd_half_life_s = Fin 10, rd_atomic_mass = 234,
              rd_decay_modes = [alpha, ''SF''],
              rd_branching_fractions = [4 / 5, 1 / 5],
              rd_progeny = [''E'', ''SF'']\<rparr>
      else if name = ''E'' then
        Some \<lparr>rd_half_life_s = PosInf, rd_atomic_mass = 230,
              rd_decay_modes = [], rd_branching_fractions = [], rd_progeny = []\<rparr>
      else if name = ''Z'' then
        Some \<lparr>rd_half_life_s = Fin 0, rd_atomic_mass = 1,
              rd_decay_modes = [], rd_branching_fractions = [], rd_progeny = []\<rparr>
      else None)"

definition demo_calc :: "string \<Rightarrow> string list \<Rightarrow> string option \<Rightarrow> real option \<Rightarrow> calculator" where
  "demo_calc measured parents dt uncertainty =
     \<lparr>measured_nuclide = measured, measured_activity = 100,
      parent_nuclides = parents, decay_type = dt,
      measured_activity_uncertainty = uncertainty, include_paths = True,
      branching_cache = Map.empty, decay_fraction_cache = Map.empty\<rparr>"

text \<open>
  What the aggregator returns on this network for the ancestor \<open>A\<close>, the measured
  nuclide \<open>D\<close> and the decay type alpha.
\<close>

definition demo_info :: branching_info where
  "demo_info =
     \<lparr>info_branching_ratio = 4 / 5,
      info_paths =
        [\<lparr>nodes = [''A'', ''B'', ''D''], decay_modes = [alpha, beta @ ''-''],
          step_branching_fractions = [3 / 4, 1], chain_branching_ratio = 3 / 4,
          decay_type_fraction_at_measured = 4 / 5, path_branching_ratio = 3 / 5\<rparr>,
         \<lparr>nodes = [''A'', ''C'', ''D''], decay_modes = [beta @ ''-'', alpha],
          step_branching_fractions = [1 / 4, 1], chain_branching_ratio = 1 / 4,
          decay_type_fraction_at_measured = 4 / 5, path_branching_ratio = 1 / 5\<rparr>],
      info_decay_type_fraction_at_measured = 4 / 5\<rparr>"

text \<open>
  A batch on this network: the measured nuclide \<open>D\<close> with activity 100 and uncertainty
  5, the decay type alpha, and the ancestors \<open>A\<close> (two paths), \<open>E\<close> (no path) and \<open>D\<close>
  itself; and the result dictionary that \<open>calculate\<close> returns for it.
\<close>

definition demo_batch :: calculator where
  "demo_batch = demo_calc ''D'' [''A'', ''E'', ''D''] (Some alpha) (Some 5)"

definition demo_result_A :: result where
  "demo_result_A =
     \<lparr>activity_Bq = 125,
      mass_g = Fin (125 * (238 / (avogadro_number * (ln 2 / 1000000)))),
      branching_ratio = 4 / 5,
      halflife_yr = Fin (1000000 / seconds_per_year),
      atomic_mass = Some 238, error = None,
      activity_uncertainty_Bq = Some (25 / 4),
      mass_uncertainty_g = Some (Fin (25 / 4 * (238 / (avogadro_number * (ln 2 / 1000000))))),
      relative_uncertainty = Some (Some (1 / 20)),
      paths = Some (info_paths demo_info),
      total_branching_ratio = Some (4 / 5)\<rparr>"

definition demo_result_D :: result where
  "demo_result_D =
     \<lparr>activity_Bq = 100,
      mass_g = Fin (100 * (234 / (avogadro_number * (ln 2 / 10)))),
      branching_ratio = 1,
      halflife_yr = Fin (10 / seconds_per_year),
      atomic_mass = Some 234, error = None,
      activity_uncertainty_Bq = Some 5,
      mass_uncertainty_g = Some (Fin (5 * (234 / (avogadro_number * (ln 2 / 10))))),
      relative_uncertainty = Some (Some (1 / 20)),
      paths = Some [\<lparr>nodes = [''D''], decay_modes = [], step_branching_fractions = [],
                      chain_branching_ratio = 1, decay_type_fraction_at_measured = 1,
                      path_branching_ratio = 1\<rparr>],
      total_branching_ratio = Some 1\<rparr>"

definition demo_results :: "string \<rightharpoonup> result" where
  "demo_results =
     [''A'' \<mapsto> demo_result_A,
      ''E'' \<mapsto> failure_result demo_batch (not_in_chain_msg ''D'' ''E''),
      ''D'' \<mapsto> demo_result_D]"

declare dfs.simps [simp del]

section \<open>The path enumerator: invariants of the search\<close>

text \<open>One unfolding of \<open>dfs\<close>, read from a path it returns.\<close>

lemma dfs_cases:
  assumes "p \<in> set (dfs rd progeny current visited nds modes step_fractions cumulative_ratio depth)"
  shows "depth \<le> MAX_DEPTH \<and>
         ((current = progeny \<and>
           p = \<lparr>nodes = nds, decay_modes = modes, step_branching_fractions = step_fractions,
                 chain_branching_ratio = cumulative_ratio\<rparr>) \<or>
          (current \<noteq> progeny \<and>
           (\<exists>nuclide mode fraction child.
              rd current = Some nuclide \<and>
              (mode, fraction, child) \<in> set (zip3 (rd_decay_modes nuclide)
                 (rd_branching_fractions nuclide) (rd_progeny nuclide)) \<and>
              is_nuclide_name rd child \<and> child \<notin> visited \<and>
              p \<in> set (dfs rd progeny child (insert child visited) (nds @ [child])
                         (modes @ [mode]) (step_fractions @ [fraction])
                         (cumulative_ratio * fraction) (depth + 1)))))"
proof -
  from assms have
    "p \<in> set (if depth > MAX_DEPTH then []
      else if current = progeny then
        [\<lparr>nodes = nds, decay_modes = modes, step_branching_fractions = step_fractions,
          chain_branching_ratio = cumulative_ratio\<rparr>]
      else
        (case rd current of
           None \<Rightarrow> []
         | Some nuclide \<Rightarrow>
             concat (map (\<lambda>(mode, fraction, child).
                 if \<not> is_nuclide_name rd child then []
                 else if child \<in> visited then []
                 else dfs rd progeny child (insert child visited) (nds @ [child])
                        (modes @ [mode]) (step_fractions @ [fraction])
                        (cumulative_ratio * fraction) (depth + 1))
               (zip3 (rd_decay_modes nuclide) (rd_branching_fractions nuclide)
                     (rd_progeny nuclide)))))"
    by (subst (asm) dfs.simps)
  then show ?thesis
    by (simp split: if_splits option.splits) (metis (no_types))
qed

lemma dfs_chain_ratio:
  "cumulative_ratio = prod_list step_fractions \<Longrightarrow>
   p \<in> set (dfs rd progeny current visited nds modes step_fractions cumulative_ratio depth) \<Longrightarrow>
   chain_branching_ratio p = prod_list (step_branching_fractions p)"
proof (induction rd progeny current visited nds modes step_fractions cumulative_ratio depth
       rule: dfs.induct)
  case (1 rd progeny current visited nds modes step_fractions cumulative_ratio depth)
  from dfs_cases [OF "1.prems"(2)] show ?case
  proof (elim conjE disjE exE)
    assume "p = \<lparr>nodes = nds, decay_modes = modes, step_branching_fractions = step_fractions,
                 chain_branching_ratio = cumulative_ratio\<rparr>"
    with "1.prems"(1) show ?thesis by simp
  next
    fix nuclide mode fraction child
    assume a: "depth \<le> MAX_DEPTH" "current \<noteq> progeny" "rd current = Some nuclide"
      "(mode, fraction, child) \<in> set (zip3 (rd_decay_modes nuclide)
                 (rd_branching_fractions nuclide) (rd_progeny nuclide))"
      "is_nuclide_name rd child" "child \<notin> visited"
      "p \<in> set (dfs rd progeny child (insert child visited) (nds @ [child])
                         (modes @ [mode]) (step_fractions @ [fraction])
                         (cumulative_ratio * fraction) (depth + 1))"
    show ?thesis
      using "1.IH" [of nuclide "(mode, fraction, child)" mode "(fraction, child)" fraction child]
        a "1.prems"(1)
      by simp
  qed
qed

lemma dfs_distinct:
  "distinct nds \<Longrightarrow> set nds = visited \<Longrightarrow>
   p \<in> set (dfs rd progeny current visited nds modes step_fractions cumulative_ratio depth) \<Longrightarrow>
   distinct (nodes p)"
proof (induction rd progeny current visited nds modes step_fractions cumulative_ratio depth
       rule: dfs.induct)
  case (1 rd progeny current visited nds modes step_fractions cumulative_ratio depth)
  from dfs_cases [OF "1.prems"(3)] show ?case
  proof (elim conjE disjE exE)
    assume "p = \<lparr>nodes = nds, decay_modes = modes, step_branching_fractions = step_fractions,
                 chain_branching_ratio = cumulative_ratio\<rparr>"
    with "1.prems"(1) show ?thesis by simp
  next
    fix nuclide mode fraction child
    assume a: "depth \<le> MAX_DEPTH" "current \<noteq> progeny" "rd current = Some nuclide"
      "(mode, fraction, child) \<in> set (zip3 (rd_decay_modes nuclide)
                 (rd_branching_fractions nuclide) (rd_progeny nuclide))"
      "is_nuclide_name rd child" "child \<notin> visited"
      "p \<in> set (dfs rd progeny child (insert child visited) (nds @ [child])
                         (modes @ [mode]) (step_fractions @ [fraction])
                         (cumulative_ratio * fraction) (depth + 1))"
    show ?thesis
      using "1.IH" [of nuclide "(mode, fraction, child)" mode "(fraction, child)" fraction child]
        a "1.prems"(1,2)
      by auto
  qed
qed

section \<open>The aggregation loop, the sort and the caches\<close>

lemma path_contributions_eq:
  "path_contributions f ps acc t =
     (acc @ map (\<lambda>p. \<lparr>nodes = nodes p, decay_modes = decay_modes p,
                     step_branching_fractions = step_branching_fractions p,
                     chain_branching_ratio = chain_branching_ratio p,
                     decay_type_fraction_at_measured = f,
                     path_branching_ratio = chain_branching_ratio p * f\<rparr>) ps,
      t + sum_list (map (\<lambda>p. chain_branching_ratio p * f) ps))"
  by (induction ps arbitrary: acc t) (simp_all add: Let_def)

lemma sort_paths_mset: "mset (sort_paths ds) = mset ds"
  by (simp add: sort_paths_def)

lemma sort_paths_set: "set (sort_paths ds) = set ds"
  by (simp add: sort_paths_def)

lemma sort_paths_sum:
  "sum_list (map path_branching_ratio (sort_paths ds)) = sum_list (map path_branching_ratio ds)"
proof -
  have "mset (map path_branching_ratio (sort_paths ds)) = mset (map path_branching_ratio ds)"
    by (simp add: sort_paths_mset)
  then show ?thesis
    by (metis sum_mset_sum_list)
qed

lemma enumerate_chain_ratio:
  "p \<in> set (enumerate_chain_paths rd parent progeny) \<Longrightarrow>
   chain_branching_ratio p = prod_list (step_branching_fractions p)"
  by (auto simp: enumerate_chain_paths_def split: if_splits intro: dfs_chain_ratio [where step_fractions = "[]" and cumulative_ratio = 1])

lemma enumerate_distinct:
  "p \<in> set (enumerate_chain_paths rd parent progeny) \<Longrightarrow> distinct (nodes p)"
  by (auto simp: enumerate_chain_paths_def split: if_splits dest: dfs_distinct [rotated 2])

lemma decay_fraction_refines:
  assumes ok: "cache_ok rd s"
    and run: "get_decay_fraction_for_nuclide rd s nuclide = (r, s')"
  shows "r = decay_fraction_nocache rd (decay_type s) nuclide \<and> cache_ok rd s' \<and> same_config s s'"
proof (cases "decay_type s")
  case None
  with run ok show ?thesis
    by (simp add: get_decay_fraction_for_nuclide_def decay_fraction_nocache_def same_config_def)
next
  case (Some dt)
  show ?thesis
  proof (cases "decay_fraction_cache s (nuclide, dt)")
    case (Some v)
    with run \<open>decay_type s = Some dt\<close> have "r = Inr v" "s' = s"
      by (simp_all add: get_decay_fraction_for_nuclide_def)
    moreover from ok Some \<open>decay_type s = Some dt\<close>
    have "decay_fraction_nocache rd (Some dt) nuclide = Inr v"
      by (simp add: cache_ok_def)
    ultimately show ?thesis
      using ok \<open>decay_type s = Some dt\<close> by (simp add: same_config_def)
  next
    case None
    show ?thesis
    proof (cases "rd nuclide")
      case None
      with run \<open>decay_type s = Some dt\<close> \<open>decay_fraction_cache s (nuclide, dt) = None\<close> ok
      show ?thesis
        by (simp add: get_decay_fraction_for_nuclide_def decay_fraction_nocache_def
            same_config_def)
    next
      case (Some t)
      define m where "m = matching_fraction dt (zip (rd_decay_modes t) (rd_branching_fractions t)) 0"
      from run \<open>decay_type s = Some dt\<close> \<open>decay_fraction_cache s (nuclide, dt) = None\<close> Some
      have r: "r = Inr m"
        and s': "s' = s\<lparr>decay_fraction_cache := (decay_fraction_cache s)((nuclide, dt) \<mapsto> m)\<rparr>"
        by (simp_all add: get_decay_fraction_for_nuclide_def m_def Let_def)
      have nc: "decay_fraction_nocache rd (Some dt) nuclide = Inr m"
        using Some by (simp add: decay_fraction_nocache_def m_def)
      have "cache_ok rd s'"
        using ok nc \<open>decay_type s = Some dt\<close> unfolding cache_ok_def s'
        by (auto split: if_splits)
      then show ?thesis
        using r nc \<open>decay_type s = Some dt\<close> by (simp add: s' same_config_def)
    qed
  qed
qed

lemma same_config_refl: "same_config s s"
  by (simp add: same_config_def)

lemma same_config_trans: "same_config s t \<Longrightarrow> same_config t u \<Longrightarrow> same_config s u"
  by (simp add: same_config_def)

lemma branching_info_refines:
  assumes ok: "cache_ok rd s"
    and run: "get_branching_info rd s parent progeny = (r, s')"
  shows "r = branching_info_nocache rd (decay_type s) parent progeny \<and> cache_ok rd s' \<and>
         same_config s s'"
proof (cases "branching_cache s (parent, progeny, decay_type s)")
  case (Some info)
  with run have "r = Inr info" "s' = s"
    by (simp_all add: get_branching_info_def)
  moreover from ok Some have "branching_info_nocache rd (decay_type s) parent progeny = Inr info"
    by (simp add: cache_ok_def)
  ultimately show ?thesis using ok by (simp add: same_config_refl)
next
  case miss: None
  show ?thesis
  proof (cases "rd progeny")
    case None
    with run miss ok show ?thesis
      by (simp add: get_branching_info_def branching_info_nocache_def same_config_refl)
  next
    case (Some pn)
    show ?thesis
    proof (cases "rd_half_life_s pn = PosInf \<or> enumerate_chain_paths rd parent progeny = []")
      case True
      with run miss ok Some show ?thesis
        by (auto simp add: get_branching_info_def branching_info_nocache_def same_config_refl
            Let_def)
    next
      case False
      obtain fr s1 where step:
        "(if decay_type s \<noteq> None \<and> parent \<noteq> progeny
          then get_decay_fraction_for_nuclide rd s progeny else (Inr 1, s)) = (fr, s1)"
        by (cases "(if decay_type s \<noteq> None \<and> parent \<noteq> progeny
          then get_decay_fraction_for_nuclide rd s progeny else (Inr 1, s))") simp
      have fr: "fr = (if decay_type s \<noteq> None \<and> parent \<noteq> progeny
                      then decay_fraction_nocache rd (decay_type s) progeny else Inr 1)"
        and ok1: "cache_ok rd s1" and cfg1: "same_config s s1"
        using step decay_fraction_refines [OF ok, of progeny fr s1] ok
        by (auto simp: same_config_refl split: if_splits)
      have dt1: "decay_type s1 = decay_type s"
        using cfg1 by (simp add: same_config_def)
      have nc_unfold: "branching_info_nocache rd (decay_type s) parent progeny =
          (case fr of
             Inl e \<Rightarrow> Inl e
           | Inr f \<Rightarrow>
               (case path_contributions f (enumerate_chain_paths rd parent progeny) [] 0 of
                  (path_details, total_ratio) \<Rightarrow>
                    if total_ratio < 1 / 10 ^ 15
                    then Inl (ValueError (not_in_chain_msg progeny parent))
                    else Inr \<lparr>info_branching_ratio = total_ratio,
                              info_paths = sort_paths path_details,
                              info_decay_type_fraction_at_measured = f\<rparr>))"
        using Some False unfolding fr by (simp add: branching_info_nocache_def Let_def)
      show ?thesis
      proof (cases fr)
        case (Inl e)
        with run miss Some False step have "r = Inl e" "s' = s1"
          by (simp_all add: get_branching_info_def Let_def)
        moreover have "branching_info_nocache rd (decay_type s) parent progeny = Inl e"
          using Inl by (simp add: nc_unfold)
        ultimately show ?thesis using ok1 cfg1 by simp
      next
        case (Inr f)
        obtain ds tot where pc:
          "path_contributions f (enumerate_chain_paths rd parent progeny) [] 0 = (ds, tot)"
          by (cases "path_contributions f (enumerate_chain_paths rd parent progeny) [] 0")
        define info where "info = \<lparr>info_branching_ratio = tot, info_paths = sort_paths ds,
                                   info_decay_type_fraction_at_measured = f\<rparr>"
        show ?thesis
        proof (cases "tot < 1 / 10 ^ 15")
          case True
          with run miss Some False step Inr pc
          have "r = Inl (ValueError (not_in_chain_msg progeny parent))" "s' = s1"
            by (simp_all add: get_branching_info_def Let_def)
          moreover have "branching_info_nocache rd (decay_type s) parent progeny =
                         Inl (ValueError (not_in_chain_msg progeny parent))"
            using Inr pc True by (simp add: nc_unfold)
          ultimately show ?thesis using ok1 cfg1 by simp
        next
          case nt: False
          with run miss Some False step Inr pc
          have r: "r = Inr info"
            and s': "s' = s1\<lparr>branching_cache :=
                        (branching_cache s1)((parent, progeny, decay_type s) \<mapsto> info)\<rparr>"
            by (simp_all add: get_branching_info_def Let_def info_def)
          have nc: "branching_info_nocache rd (decay_type s) parent progeny = Inr info"
            using Inr pc nt by (simp add: nc_unfold info_def)
          have "cache_ok rd s'"
            using ok1 nc dt1 unfolding cache_ok_def s'
            by (auto split: if_splits)
          moreover have "same_config s s'"
            using cfg1 by (simp add: s' same_config_def)
          ultimately show ?thesis using r nc by simp
        qed
      qed
    qed
  qed
qed

section \<open>The aggregator without caches\<close>

lemma matching_fraction_eq:
  "matching_fraction dt xs acc =
     acc + sum_list (map snd (filter (\<lambda>(mode, fraction). py_in dt mode) xs))"
  by (induction xs arbitrary: acc) auto

lemma nocache_radioactive:
  assumes "rd progeny = Some pn" and "rd_half_life_s pn \<noteq> PosInf"
  shows "branching_info_nocache rd dto parent progeny =
     (let f = (case dto of
                 None \<Rightarrow> 1
               | Some dt \<Rightarrow>
                   if parent = progeny then 1
                   else matching_fraction dt
                          (zip (rd_decay_modes pn) (rd_branching_fractions pn)) 0);
          ps = enumerate_chain_paths rd parent progeny;
          tot = sum_list (map (\<lambda>p. chain_branching_ratio p * f) ps)
      in if ps = [] \<or> tot < 1 / 10 ^ 15
         then Inl (ValueError (not_in_chain_msg progeny parent))
         else Inr \<lparr>info_branching_ratio = tot,
                   info_paths = sort_paths
                     (map (\<lambda>p. \<lparr>nodes = nodes p, decay_modes = decay_modes p,
                                 step_branching_fractions = step_branching_fractions p,
                                 chain_branching_ratio = chain_branching_ratio p,
                                 decay_type_fraction_at_measured = f,
                                 path_branching_ratio = chain_branching_ratio p * f\<rparr>) ps),
                   info_decay_type_fraction_at_measured = f\<rparr>)"
proof (cases dto)
  case None
  with assms show ?thesis
    by (simp add: branching_info_nocache_def Let_def path_contributions_eq)
next
  case (Some dt)
  show ?thesis
  proof (cases "parent = progeny")
    case True
    with assms Some show ?thesis
      by (simp add: branching_info_nocache_def Let_def path_contributions_eq)
  next
    case False
    with assms Some show ?thesis
      by (simp add: branching_info_nocache_def decay_fraction_nocache_def Let_def
          path_contributions_eq)
  qed
qed

lemma nocache_error_is_ValueError:
  assumes "branching_info_nocache rd dto parent progeny = Inl e"
  shows "\<exists>msg. e = ValueError msg"
proof (cases "rd progeny")
  case None
  with assms show ?thesis by (auto simp: branching_info_nocache_def)
next
  case (Some pn)
  show ?thesis
  proof (cases "rd_half_life_s pn = PosInf")
    case True
    with assms Some show ?thesis by (auto simp: branching_info_nocache_def)
  next
    case False
    from assms show ?thesis
      unfolding nocache_radioactive [of rd progeny pn dto parent, OF Some False]
      by (auto simp: Let_def split: if_splits)
  qed
qed

lemma nocache_success:
  assumes "branching_info_nocache rd dto parent progeny = Inr info"
  shows "\<exists>pn. rd progeny = Some pn \<and> rd_half_life_s pn \<noteq> PosInf \<and>
           enumerate_chain_paths rd parent progeny \<noteq> [] \<and>
           1 / 10 ^ 15 \<le> info_branching_ratio info"
proof (cases "rd progeny")
  case None
  with assms show ?thesis by (auto simp: branching_info_nocache_def)
next
  case (Some pn)
  show ?thesis
  proof (cases "rd_half_life_s pn = PosInf")
    case True
    with assms Some show ?thesis by (auto simp: branching_info_nocache_def)
  next
    case False
    from assms show ?thesis
      unfolding nocache_radioactive [of rd progeny pn dto parent, OF Some False]
      using Some False
      by (auto simp: Let_def split: if_splits)
  qed
qed

lemma nocache_ratio_pos:
  "branching_info_nocache rd dto parent progeny = Inr info \<Longrightarrow> 0 < info_branching_ratio info"
proof -
  assume "branching_info_nocache rd dto parent progeny = Inr info"
  then have "1 / 10 ^ 15 \<le> info_branching_ratio info"
    using nocache_success by blast
  moreover have "(0::real) < 1 / 10 ^ 15" by simp
  ultimately show ?thesis by linarith
qed

section \<open>The loop of the calculator and its caches\<close>

lemma parent_result_config:
  assumes "same_config s t"
  shows "parent_result rd t parent info = parent_result rd s parent info"
proof -
  from assms have "measured_activity t = measured_activity s"
    "measured_activity_uncertainty t = measured_activity_uncertainty s"
    "include_paths t = include_paths s"
    by (simp_all add: same_config_def)
  then show ?thesis
    unfolding parent_result_def by (simp only:)
qed

lemma failure_result_config:
  "same_config s t \<Longrightarrow> failure_result t msg = failure_result s msg"
  by (simp add: failure_result_def same_config_def)

lemma loop_nocache_config:
  "same_config s t \<Longrightarrow>
   calculate_loop_nocache rd t ps res = calculate_loop_nocache rd s ps res"
proof (induction ps arbitrary: res)
  case Nil
  show ?case by simp
next
  case (Cons p ps)
  from Cons.prems have eq: "decay_type t = decay_type s" "measured_nuclide t = measured_nuclide s"
    by (simp_all add: same_config_def)
  show ?case
    by (simp only: calculate_loop_nocache.simps eq Cons.IH [OF Cons.prems]
        parent_result_config [OF Cons.prems] failure_result_config [OF Cons.prems])
qed

lemma calculate_loop_refines:
  "cache_ok rd s \<Longrightarrow> calculate_loop rd s ps res = (out, s') \<Longrightarrow>
   out = calculate_loop_nocache rd s ps res \<and> cache_ok rd s' \<and> same_config s s'"
proof (induction ps arbitrary: s res)
  case Nil
  then show ?case by (simp add: same_config_refl)
next
  case (Cons p ps)
  obtain r s1 where step: "get_branching_info rd s p (measured_nuclide s) = (r, s1)"
    by (cases "get_branching_info rd s p (measured_nuclide s)")
  from branching_info_refines [OF Cons.prems(1) step]
  have r: "r = branching_info_nocache rd (decay_type s) p (measured_nuclide s)"
    and ok1: "cache_ok rd s1" and cfg1: "same_config s s1"
    by simp_all
  note cfg = loop_nocache_config [OF cfg1] parent_result_config [OF cfg1]
    failure_result_config [OF cfg1]
  show ?case
  proof (cases r)
    case (Inl e)
    show ?thesis
    proof (cases e)
      case (ValueError msg)
      with Cons.prems(2) step Inl
      have "calculate_loop rd s1 ps (res(p \<mapsto> failure_result s1 msg)) = (out, s')"
        by simp
      note ih = Cons.IH [OF ok1 this]
      note ok' = ih [THEN conjunct2, THEN conjunct1]
      note cfg' = ih [THEN conjunct2, THEN conjunct2]
      from ih [THEN conjunct1] have "out = calculate_loop_nocache rd s ps (res(p \<mapsto> failure_result s msg))"
        by (simp only: cfg)
      moreover have "calculate_loop_nocache rd s (p # ps) res =
          calculate_loop_nocache rd s ps (res(p \<mapsto> failure_result s msg))"
        using r [symmetric] Inl ValueError by simp
      ultimately have "out = calculate_loop_nocache rd s (p # ps) res"
        by (simp only:)
      with ok' same_config_trans [OF cfg1 cfg'] show ?thesis
        by (intro conjI)
    next
      case ZeroDivisionError
      with Cons.prems(2) step Inl have "out = Inl e" "s' = s1" by simp_all
      then show ?thesis
        using r [symmetric] Inl ZeroDivisionError ok1 cfg1 by simp
    next
      case (ProviderError x)
      with Cons.prems(2) step Inl have "out = Inl e" "s' = s1" by simp_all
      then show ?thesis
        using r [symmetric] Inl ProviderError ok1 cfg1 by simp
    qed
  next
    case (Inr info)
    show ?thesis
    proof (cases "parent_result rd s1 p info")
      case (Inl e)
      with Cons.prems(2) step Inr have "out = Inl e" "s' = s1" by simp_all
      then show ?thesis
        using r [symmetric] Inr Inl ok1 cfg1 cfg by simp
    next
      case res: (Inr x)
      with Cons.prems(2) step Inr
      have "calculate_loop rd s1 ps (res(p \<mapsto> x)) = (out, s')"
        by simp
      note ih = Cons.IH [OF ok1 this]
      note ok' = ih [THEN conjunct2, THEN conjunct1]
      note cfg' = ih [THEN conjunct2, THEN conjunct2]
      from ih [THEN conjunct1] have "out = calculate_loop_nocache rd s ps (res(p \<mapsto> x))"
        by (simp only: cfg)
      moreover have "calculate_loop_nocache rd s (p # ps) res =
          calculate_loop_nocache rd s ps (res(p \<mapsto> x))"
        using r [symmetric] Inr res cfg(2) by simp
      ultimately have "out = calculate_loop_nocache rd s (p # ps) res"
        by (simp only:)
      with ok' same_config_trans [OF cfg1 cfg'] show ?thesis
        by (intro conjI)
    qed
  qed
qed

lemma calculate_refines:
  "cache_ok rd s \<Longrightarrow> calculate rd s = (out, s') \<Longrightarrow>
   out = calculate_nocache rd s \<and> cache_ok rd s' \<and> same_config s s'"
  using calculate_loop_refines [of rd s "parent_nuclides s" Map.empty out s']
  by (simp add: calculate_def calculate_nocache_def)

lemma calculate_nocache_config:
  "same_config s t \<Longrightarrow> calculate_nocache rd t = calculate_nocache rd s"
  using loop_nocache_config [of s t rd "parent_nuclides s" Map.empty]
  by (simp add: calculate_nocache_def same_config_def)

lemma loop_nocache_lookup:
  "calculate_loop_nocache rd s ps res = Inr out \<Longrightarrow>
   (\<forall>p. p \<notin> set ps \<longrightarrow> out p = res p) \<and>
   (\<forall>p \<in> set ps.
      case branching_info_nocache rd (decay_type s) p (measured_nuclide s) of
        Inl e \<Rightarrow> (\<exists>msg. e = ValueError msg \<and> out p = Some (failure_result s msg))
      | Inr info \<Rightarrow> (\<exists>r. parent_result rd s p info = Inr r \<and> out p = Some r))"
proof (induction ps arbitrary: res)
  case Nil
  then show ?case by simp
next
  case (Cons q ps)
  let ?Q = "\<lambda>p. case branching_info_nocache rd (decay_type s) p (measured_nuclide s) of
        Inl e \<Rightarrow> (\<exists>msg. e = ValueError msg \<and> out p = Some (failure_result s msg))
      | Inr info \<Rightarrow> (\<exists>r. parent_result rd s p info = Inr r \<and> out p = Some r)"
  have "\<exists>v. calculate_loop_nocache rd s ps (res(q \<mapsto> v)) = Inr out \<and>
            (out q = Some v \<longrightarrow> ?Q q)"
  proof (cases "branching_info_nocache rd (decay_type s) q (measured_nuclide s)")
    case (Inl e)
    then obtain msg where e: "e = ValueError msg"
      using nocache_error_is_ValueError by blast
    with Cons.prems Inl
    have "calculate_loop_nocache rd s ps (res(q \<mapsto> failure_result s msg)) = Inr out"
      by simp
    then show ?thesis using Inl e by auto
  next
    case (Inr info)
    with Cons.prems obtain r where r: "parent_result rd s q info = Inr r"
      by (cases "parent_result rd s q info") simp_all
    with Cons.prems Inr
    have "calculate_loop_nocache rd s ps (res(q \<mapsto> r)) = Inr out"
      by simp
    then show ?thesis using Inr r by auto
  qed
  then obtain v where run: "calculate_loop_nocache rd s ps (res(q \<mapsto> v)) = Inr out"
    and q: "out q = Some v \<longrightarrow> ?Q q"
    by blast
  note ih = Cons.IH [OF run]
  show ?case
  proof (intro conjI allI ballI impI)
    fix p assume "p \<notin> set (q # ps)"
    then show "out p = res p"
      using ih [THEN conjunct1] by simp
  next
    fix p assume p: "p \<in> set (q # ps)"
    show "?Q p"
    proof (cases "p \<in> set ps")
      case True
      with ih [THEN conjunct2] show ?thesis by blast
    next
      case False
      with p have "p = q" by simp
      with False ih [THEN conjunct1] have "out q = Some v" by simp
      with q \<open>p = q\<close> show ?thesis by blast
    qed
  qed
qed

lemma loop_nocache_abort:
  "calculate_loop_nocache rd s ps res = Inl e \<Longrightarrow>
   \<exists>p \<in> set ps. \<exists>info.
      branching_info_nocache rd (decay_type s) p (measured_nuclide s) = Inr info \<and>
      parent_result rd s p info = Inl e"
proof (induction ps arbitrary: res)
  case Nil
  then show ?case by simp
next
  case (Cons q ps)
  show ?case
  proof (cases "branching_info_nocache rd (decay_type s) q (measured_nuclide s)")
    case (Inl e')
    then obtain msg where e: "e' = ValueError msg"
      using nocache_error_is_ValueError by blast
    with Cons.prems Inl
    have "calculate_loop_nocache rd s ps (res(q \<mapsto> failure_result s msg)) = Inl e"
      by simp
    from Cons.IH [OF this] show ?thesis by auto
  next
    case (Inr info)
    show ?thesis
    proof (cases "parent_result rd s q info")
      case (Inl e')
      with Cons.prems Inr show ?thesis by auto
    next
      case r: (Inr r)
      with Cons.prems Inr
      have "calculate_loop_nocache rd s ps (res(q \<mapsto> r)) = Inl e"
        by simp
      from Cons.IH [OF this] show ?thesis by auto
    qed
  qed
qed

lemma nocache_success_shape:
  assumes "branching_info_nocache rd dto parent progeny = Inr info"
  shows "\<exists>pn. rd progeny = Some pn \<and> rd_half_life_s pn \<noteq> PosInf \<and>
     enumerate_chain_paths rd parent progeny \<noteq> [] \<and>
     1 / 10 ^ 15 \<le> info_branching_ratio info \<and>
     info_decay_type_fraction_at_measured info =
       (case dto of
          None \<Rightarrow> 1
        | Some dt \<Rightarrow>
            if parent = progeny then 1
            else matching_fraction dt (zip (rd_decay_modes pn) (rd_branching_fractions pn)) 0) \<and>
     info_branching_ratio info =
       sum_list (map (\<lambda>p. chain_branching_ratio p * info_decay_type_fraction_at_measured info)
                   (enumerate_chain_paths rd parent progeny)) \<and>
     info_paths info =
       sort_paths
         (map (\<lambda>p. \<lparr>nodes = nodes p, decay_modes = decay_modes p,
                     step_branching_fractions = step_branching_fractions p,
                     chain_branching_ratio = chain_branching_ratio p,
                     decay_type_fraction_at_measured =
                       info_decay_type_fraction_at_measured info,
                     path_branching_ratio =
                       chain_branching_ratio p * info_decay_type_fraction_at_measured info\<rparr>)
            (enumerate_chain_paths rd parent progeny))"
proof -
  from nocache_success [OF assms] obtain pn where
    pn: "rd progeny = Some pn" "rd_half_life_s pn \<noteq> PosInf"
    by blast
  from assms show ?thesis
    unfolding nocache_radioactive [of rd progeny pn dto parent, OF pn]
    using pn by (auto simp: Let_def split: if_splits)
qed

section \<open>Evaluation on the small network\<close>

lemmas demo_eval = enumerate_chain_paths_def dfs.simps demo_rd_def MAX_DEPTH_def
  is_nuclide_name_def alpha_def beta_def py_in_def sublist_Cons_right

lemma demo_paths_A_D:
  "enumerate_chain_paths demo_rd ''A'' ''D'' =
     [\<lparr>nodes = [''A'', ''B'', ''D''], decay_modes = [alpha, beta @ ''-''],
       step_branching_fractions = [3 / 4, 1], chain_branching_ratio = 3 / 4\<rparr>,
      \<lparr>nodes = [''A'', ''C'', ''D''], decay_modes = [beta @ ''-'', alpha],
       step_branching_fractions = [1 / 4, 1], chain_branching_ratio = 1 / 4\<rparr>]"
  by (simp add: demo_eval)

lemma demo_cache_ok: "cache_ok rd (demo_calc measured parents dt uncertainty)"
  by (simp add: cache_ok_def demo_calc_def)

lemma demo_info_A_D:
  "fst (get_branching_info demo_rd (demo_calc ''D'' [''A''] (Some alpha) None) ''A'' ''D'') =
     Inr demo_info"
  by (simp add: get_branching_info_def demo_calc_def get_decay_fraction_for_nuclide_def
      demo_paths_A_D sort_paths_def Let_def demo_rd_def alpha_def beta_def py_in_def
      sublist_Cons_right demo_info_def)

section \<open>The claims\<close>

text \<open>
  C1. Whenever the aggregator returns branching info, the enumerator returned at least
  one path, every enumerated path stores as its chain ratio the product of its per-step
  fractions, and the total branching ratio is the sum over the enumerated paths of that
  product times the decay-type fraction. The annotated paths of the info carry the same
  products, and their contributions sum to the total.
\<close>

theorem total_ratio_is_sum_over_paths:
  assumes "cache_ok rd s"
    and "fst (get_branching_info rd s parent progeny) = Inr info"
  shows "enumerate_chain_paths rd parent progeny \<noteq> [] \<and>
     (\<forall>p \<in> set (enumerate_chain_paths rd parent progeny).
        chain_branching_ratio p = prod_list (step_branching_fractions p)) \<and>
     info_branching_ratio info =
       (\<Sum>p\<leftarrow>enumerate_chain_paths rd parent progeny.
          prod_list (step_branching_fractions p) * info_decay_type_fraction_at_measured info) \<and>
     (\<forall>d \<in> set (info_paths info).
        chain_branching_ratio d = prod_list (step_branching_fractions d) \<and>
        path_branching_ratio d =
          prod_list (step_branching_fractions d) * info_decay_type_fraction_at_measured info) \<and>
     sum_list (map path_branching_ratio (info_paths info)) = info_branching_ratio info"
proof -
  let ?ps = "enumerate_chain_paths rd parent progeny"
  let ?f = "info_decay_type_fraction_at_measured info"
  obtain r s' where run: "get_branching_info rd s parent progeny = (r, s')"
    by (cases "get_branching_info rd s parent progeny")
  with assms(2) have "r = Inr info" by simp
  with branching_info_refines [OF assms(1) run]
  have nc: "branching_info_nocache rd (decay_type s) parent progeny = Inr info"
    by simp
  from nocache_success_shape [OF nc] have ne: "?ps \<noteq> []"
    and tot: "info_branching_ratio info = sum_list (map (\<lambda>p. chain_branching_ratio p * ?f) ?ps)"
    and ips: "info_paths info =
       sort_paths
         (map (\<lambda>p. \<lparr>nodes = nodes p, decay_modes = decay_modes p,
                     step_branching_fractions = step_branching_fractions p,
                     chain_branching_ratio = chain_branching_ratio p,
                     decay_type_fraction_at_measured = ?f,
                     path_branching_ratio = chain_branching_ratio p * ?f\<rparr>) ?ps)"
    by blast+
  have prod: "\<forall>p \<in> set ?ps. chain_branching_ratio p = prod_list (step_branching_fractions p)"
    using enumerate_chain_ratio by blast
  have sum: "info_branching_ratio info =
      (\<Sum>p\<leftarrow>?ps. prod_list (step_branching_fractions p) * ?f)"
    unfolding tot using prod by (intro arg_cong [where f = sum_list] map_cong) simp_all
  have details: "\<forall>d \<in> set (info_paths info).
        chain_branching_ratio d = prod_list (step_branching_fractions d) \<and>
        path_branching_ratio d = prod_list (step_branching_fractions d) * ?f"
    unfolding ips sort_paths_set using prod by auto
  have "sum_list (map path_branching_ratio (info_paths info)) =
        sum_list (map (\<lambda>p. chain_branching_ratio p * ?f) ?ps)"
    unfolding ips sort_paths_sum by (simp add: comp_def)
  with tot have "sum_list (map path_branching_ratio (info_paths info)) = info_branching_ratio info"
    by simp
  with ne prod sum details show ?thesis by blast
qed

theorem total_ratio_is_sum_over_paths_witness:
  "cache_ok demo_rd (demo_calc ''D'' [''A''] (Some alpha) None) \<and>
   fst (get_branching_info demo_rd (demo_calc ''D'' [''A''] (Some alpha) None) ''A'' ''D'') =
     Inr demo_info \<and>
   enumerate_chain_paths demo_rd ''A'' ''D'' \<noteq> [] \<and>
   info_branching_ratio demo_info =
     (\<Sum>p\<leftarrow>enumerate_chain_paths demo_rd ''A'' ''D''.
        prod_list (step_branching_fractions p) *
        info_decay_type_fraction_at_measured demo_info) \<and>
   sum_list (map path_branching_ratio (info_paths demo_info)) = info_branching_ratio demo_info \<and>
   info_branching_ratio demo_info = 3 / 4 * 1 * (4 / 5) + 1 / 4 * 1 * (4 / 5)"
proof -
  note h1 = demo_cache_ok [of demo_rd "''D''" "[''A'']" "Some alpha" None]
  note h2 = demo_info_A_D
  note t = total_ratio_is_sum_over_paths [OF h1 h2]
  have "info_branching_ratio demo_info = 3 / 4 * 1 * (4 / 5) + 1 / 4 * 1 * (4 / 5)"
    by (simp add: demo_info_def)
  with h1 h2 t show ?thesis by blast
qed

text \<open>
  C9. No nuclide identifier occurs twice in a path that the enumerator returns.
\<close>

theorem no_nuclide_repeats_in_a_path:
  "p \<in> set (enumerate_chain_paths rd parent progeny) \<Longrightarrow> distinct (nodes p)"
  by (rule enumerate_distinct)

theorem no_nuclide_repeats_in_a_path_witness:
  "\<lparr>nodes = [''A'', ''B'', ''D''], decay_modes = [alpha, beta @ ''-''],
     step_branching_fractions = [3 / 4, 1], chain_branching_ratio = 3 / 4\<rparr>
     \<in> set (enumerate_chain_paths demo_rd ''A'' ''D'') \<and>
   \<lparr>nodes = [''A'', ''C'', ''D''], decay_modes = [beta @ ''-'', alpha],
     step_branching_fractions = [1 / 4, 1], chain_branching_ratio = 1 / 4\<rparr>
     \<in> set (enumerate_chain_paths demo_rd ''A'' ''D'') \<and>
   distinct (nodes \<lparr>nodes = [''A'', ''B'', ''D''], decay_modes = [alpha, beta @ ''-''],
     step_branching_fractions = [3 / 4, 1], chain_branching_ratio = 3 / 4\<rparr>)"
proof -
  have h: "\<lparr>nodes = [''A'', ''B'', ''D''], decay_modes = [alpha, beta @ ''-''],
     step_branching_fractions = [3 / 4, 1], chain_branching_ratio = 3 / 4\<rparr>
     \<in> set (enumerate_chain_paths demo_rd ''A'' ''D'')"
    by (simp add: demo_paths_A_D)
  have h': "\<lparr>nodes = [''A'', ''C'', ''D''], decay_modes = [beta @ ''-'', alpha],
     step_branching_fractions = [1 / 4, 1], chain_branching_ratio = 1 / 4\<rparr>
     \<in> set (enumerate_chain_paths demo_rd ''A'' ''D'')"
    by (simp add: demo_paths_A_D)
  from h h' no_nuclide_repeats_in_a_path [OF h] show ?thesis by blast
qed

lemma fst_branching_info:
  assumes "cache_ok rd s"
  shows "fst (get_branching_info rd s parent progeny) =
         branching_info_nocache rd (decay_type s) parent progeny"
    and "cache_ok rd (snd (get_branching_info rd s parent progeny))"
    and "same_config s (snd (get_branching_info rd s parent progeny))"
  using branching_info_refines [OF assms, of parent progeny
      "fst (get_branching_info rd s parent progeny)"
      "snd (get_branching_info rd s parent progeny)"]
  by simp_all

lemma fst_calculate:
  assumes "cache_ok rd s"
  shows "fst (calculate rd s) = calculate_nocache rd s"
    and "cache_ok rd (snd (calculate rd s))"
    and "same_config s (snd (calculate rd s))"
  using calculate_refines [OF assms, of "fst (calculate rd s)" "snd (calculate rd s)"]
  by simp_all

lemma init_cache_ok:
  "init rd measured activity parents dt uncertainty with_paths = Inr c \<Longrightarrow> cache_ok rd c"
  by (auto simp: init_def Let_def cache_ok_def split: sum.splits)

lemma enumerate_self:
  "enumerate_chain_paths rd x x =
     [\<lparr>nodes = [x], decay_modes = [], step_branching_fractions = [],
       chain_branching_ratio = 1\<rparr>]"
  by (simp add: enumerate_chain_paths_def)

lemma nocache_self:
  assumes "rd x = Some pn" and "rd_half_life_s pn \<noteq> PosInf"
  shows "branching_info_nocache rd dto x x =
     Inr \<lparr>info_branching_ratio = 1,
          info_paths = [\<lparr>nodes = [x], decay_modes = [], step_branching_fractions = [],
                         chain_branching_ratio = 1, decay_type_fraction_at_measured = 1,
                         path_branching_ratio = 1\<rparr>],
          info_decay_type_fraction_at_measured = 1\<rparr>"
  unfolding nocache_radioactive [of rd x pn dto x, OF assms]
  by (simp add: enumerate_self sort_paths_def split: option.splits)

text \<open>
  C3. Asked for the paths from a nuclide to itself, the enumerator returns the one
  trivial path whatever the provider holds. Whatever the decay type of the instance,
  branching info returned for such a query has ratio 1 and decay-type fraction 1, and
  it is returned whenever the nuclide is known and not stable.
\<close>

theorem self_path_has_ratio_one:
  "enumerate_chain_paths rd x x =
     [\<lparr>nodes = [x], decay_modes = [], step_branching_fractions = [],
       chain_branching_ratio = 1\<rparr>] \<and>
   (cache_ok rd s \<longrightarrow>
      (\<forall>info. fst (get_branching_info rd s x x) = Inr info \<longrightarrow>
         info_branching_ratio info = 1 \<and> info_decay_type_fraction_at_measured info = 1) \<and>
      (\<forall>pn. rd x = Some pn \<longrightarrow> rd_half_life_s pn \<noteq> PosInf \<longrightarrow>
         (\<exists>info. fst (get_branching_info rd s x x) = Inr info \<and>
                 info_branching_ratio info = 1)))"
proof (intro conjI impI allI)
  show "enumerate_chain_paths rd x x =
     [\<lparr>nodes = [x], decay_modes = [], step_branching_fractions = [],
       chain_branching_ratio = 1\<rparr>]"
    by (rule enumerate_self)
next
  fix info
  assume ok: "cache_ok rd s" and r: "fst (get_branching_info rd s x x) = Inr info"
  then have nc: "branching_info_nocache rd (decay_type s) x x = Inr info"
    by (simp add: fst_branching_info(1))
  from nocache_success [OF nc] obtain pn where
    "rd x = Some pn" "rd_half_life_s pn \<noteq> PosInf"
    by blast
  from nocache_self [of rd x pn "decay_type s", OF this] nc
  show "info_branching_ratio info = 1" "info_decay_type_fraction_at_measured info = 1"
    by auto
next
  fix pn
  assume ok: "cache_ok rd s" and "rd x = Some pn" "rd_half_life_s pn \<noteq> PosInf"
  from nocache_self [of rd x pn "decay_type s", OF this(2,3)] ok
  show "\<exists>info. fst (get_branching_info rd s x x) = Inr info \<and> info_branching_ratio info = 1"
    by (simp add: fst_branching_info(1))
qed

theorem self_path_has_ratio_one_witness:
  "enumerate_chain_paths demo_rd ''D'' ''D'' =
     [\<lparr>nodes = [''D''], decay_modes = [], step_branching_fractions = [],
       chain_branching_ratio = 1\<rparr>] \<and>
   cache_ok demo_rd (demo_calc ''D'' [''D''] (Some alpha) None) \<and>
   demo_rd ''D'' =
     Some \<lparr>rd_half_life_s = Fin 10, rd_atomic_mass = 234,
           rd_decay_modes = [alpha, ''SF''], rd_branching_fractions = [4 / 5, 1 / 5],
           rd_progeny = [''E'', ''SF'']\<rparr> \<and>
   (\<exists>info. fst (get_branching_info demo_rd (demo_calc ''D'' [''D''] (Some alpha) None)
                  ''D'' ''D'') = Inr info \<and>
           info_branching_ratio info = 1)"
proof -
  note h1 = demo_cache_ok [of demo_rd "''D''" "[''D'']" "Some alpha" None]
  have h2: "demo_rd ''D'' =
     Some \<lparr>rd_half_life_s = Fin 10, rd_atomic_mass = 234,
           rd_decay_modes = [alpha, ''SF''], rd_branching_fractions = [4 / 5, 1 / 5],
           rd_progeny = [''E'', ''SF'']\<rparr>"
    by (simp add: demo_rd_def)
  from self_path_has_ratio_one [of demo_rd "''D''" "demo_calc ''D'' [''D''] (Some alpha) None"]
    h1 h2
  show ?thesis by simp
qed

text \<open>
  C5. In branching info that the aggregator returns, the decay-type fraction is 1 when
  the instance has no decay type; when it has one and the ancestor is not the measured
  nuclide, it is the sum of the measured nuclide's branching fractions whose mode label
  contains the decay type. Every annotated path carries that fraction and contributes
  its chain ratio times it.
\<close>

theorem decay_type_fraction_is_matching_sum:
  assumes "cache_ok rd s"
    and "fst (get_branching_info rd s parent progeny) = Inr info"
  shows "(decay_type s = None \<longrightarrow> info_decay_type_fraction_at_measured info = 1) \<and>
     (\<forall>dt pn. decay_type s = Some dt \<longrightarrow> parent \<noteq> progeny \<longrightarrow> rd progeny = Some pn \<longrightarrow>
        info_decay_type_fraction_at_measured info =
          sum_list (map snd (filter (\<lambda>(mode, fraction). py_in dt mode)
                      (zip (rd_decay_modes pn) (rd_branching_fractions pn))))) \<and>
     (\<forall>d \<in> set (info_paths info).
        decay_type_fraction_at_measured d = info_decay_type_fraction_at_measured info \<and>
        path_branching_ratio d =
          chain_branching_ratio d * info_decay_type_fraction_at_measured info)"
proof -
  from assms have nc: "branching_info_nocache rd (decay_type s) parent progeny = Inr info"
    by (simp add: fst_branching_info(1))
  from nocache_success_shape [OF nc] obtain pn where
    pn: "rd progeny = Some pn"
    and f: "info_decay_type_fraction_at_measured info =
       (case decay_type s of
          None \<Rightarrow> 1
        | Some dt \<Rightarrow>
            if parent = progeny then 1
            else matching_fraction dt (zip (rd_decay_modes pn) (rd_branching_fractions pn)) 0)"
    and ips: "info_paths info =
       sort_paths
         (map (\<lambda>p. \<lparr>nodes = nodes p, decay_modes = decay_modes p,
                     step_branching_fractions = step_branching_fractions p,
                     chain_branching_ratio = chain_branching_ratio p,
                     decay_type_fraction_at_measured =
                       info_decay_type_fraction_at_measured info,
                     path_branching_ratio =
                       chain_branching_ratio p * info_decay_type_fraction_at_measured info\<rparr>)
            (enumerate_chain_paths rd parent progeny))"
    by blast
  have a: "decay_type s = None \<longrightarrow> info_decay_type_fraction_at_measured info = 1"
    using f by simp
  have b: "\<forall>dt pn'. decay_type s = Some dt \<longrightarrow> parent \<noteq> progeny \<longrightarrow> rd progeny = Some pn' \<longrightarrow>
        info_decay_type_fraction_at_measured info =
          sum_list (map snd (filter (\<lambda>(mode, fraction). py_in dt mode)
                      (zip (rd_decay_modes pn') (rd_branching_fractions pn'))))"
    using f pn by (auto simp: matching_fraction_eq)
  have c: "\<forall>d \<in> set (info_paths info).
        decay_type_fraction_at_measured d = info_decay_type_fraction_at_measured info \<and>
        path_branching_ratio d =
          chain_branching_ratio d * info_decay_type_fraction_at_measured info"
    unfolding ips sort_paths_set by auto
  from a b c show ?thesis by blast
qed

theorem decay_type_fraction_is_matching_sum_witness:
  "cache_ok demo_rd (demo_calc ''D'' [''A''] (Some alpha) None) \<and>
   fst (get_branching_info demo_rd (demo_calc ''D'' [''A''] (Some alpha) None) ''A'' ''D'') =
     Inr demo_info \<and>
   decay_type (demo_calc ''D'' [''A''] (Some alpha) None) = Some alpha \<and>
   ''A'' \<noteq> ''D'' \<and>
   demo_rd ''D'' =
     Some \<lparr>rd_half_life_s = Fin 10, rd_atomic_mass = 234,
           rd_decay_modes = [alpha, ''SF''], rd_branching_fractions = [4 / 5, 1 / 5],
           rd_progeny = [''E'', ''SF'']\<rparr> \<and>
   info_decay_type_fraction_at_measured demo_info =
     sum_list (map snd (filter (\<lambda>(mode, fraction). py_in alpha mode)
                 (zip [alpha, ''SF''] [4 / 5, 1 / 5]))) \<and>
   info_decay_type_fraction_at_measured demo_info = 4 / 5"
proof -
  note h1 = demo_cache_ok [of demo_rd "''D''" "[''A'']" "Some alpha" None]
  note h2 = demo_info_A_D
  have h3: "decay_type (demo_calc ''D'' [''A''] (Some alpha) None) = Some alpha"
    by (simp add: demo_calc_def)
  have h4: "''A'' \<noteq> ''D''" by simp
  have h5: "demo_rd ''D'' =
     Some \<lparr>rd_half_life_s = Fin 10, rd_atomic_mass = 234,
           rd_decay_modes = [alpha, ''SF''], rd_branching_fractions = [4 / 5, 1 / 5],
           rd_progeny = [''E'', ''SF'']\<rparr>"
    by (simp add: demo_rd_def)
  from decay_type_fraction_is_matching_sum [OF h1 h2] h3 h4 h5
  have "info_decay_type_fraction_at_measured demo_info =
     sum_list (map snd (filter (\<lambda>(mode, fraction). py_in alpha mode)
                 (zip [alpha, ''SF''] [4 / 5, 1 / 5])))"
    by fastforce
  moreover have "info_decay_type_fraction_at_measured demo_info = 4 / 5"
    by (simp add: demo_info_def)
  ultimately show ?thesis using h1 h2 h3 h4 h5 by blast
qed

text \<open>
  C8. For a measured nuclide that the provider knows and that is not stable, the
  aggregator fails, with the error that the nuclide is not in the ancestor's decay
  chain, exactly when the enumerator returns no path or the sum of the path
  contributions is below \<open>1e-15\<close>; otherwise it returns branching info whose ratio is
  that sum.
\<close>

theorem chain_error_iff_no_path_or_negligible:
  assumes "cache_ok rd s"
    and "rd progeny = Some pn"
    and "rd_half_life_s pn \<noteq> PosInf"
  shows "(let f = (case decay_type s of
                     None \<Rightarrow> 1
                   | Some dt \<Rightarrow>
                       if parent = progeny then 1
                       else matching_fraction dt
                              (zip (rd_decay_modes pn) (rd_branching_fractions pn)) 0);
              ps = enumerate_chain_paths rd parent progeny;
              tot = sum_list (map (\<lambda>p. chain_branching_ratio p * f) ps)
          in (fst (get_branching_info rd s parent progeny) =
                Inl (ValueError (not_in_chain_msg progeny parent)) \<longleftrightarrow>
              ps = [] \<or> tot < 1 / 10 ^ 15) \<and>
             ((\<exists>info. fst (get_branching_info rd s parent progeny) = Inr info \<and>
                      info_branching_ratio info = tot) \<longleftrightarrow>
              \<not> (ps = [] \<or> tot < 1 / 10 ^ 15)) \<and>
             ((\<exists>e. fst (get_branching_info rd s parent progeny) = Inl e) \<longleftrightarrow>
              ps = [] \<or> tot < 1 / 10 ^ 15))"
  unfolding fst_branching_info(1) [OF assms(1)]
    nocache_radioactive [of rd progeny pn "decay_type s" parent, OF assms(2,3)]
  by (simp add: Let_def)

lemma demo_paths_E_D: "enumerate_chain_paths demo_rd ''E'' ''D'' = []"
  by (simp add: demo_eval)

theorem chain_error_iff_no_path_or_negligible_witness:
  "cache_ok demo_rd (demo_calc ''D'' [''E''] None None) \<and>
   demo_rd ''D'' =
     Some \<lparr>rd_half_life_s = Fin 10, rd_atomic_mass = 234,
           rd_decay_modes = [alpha, ''SF''], rd_branching_fractions = [4 / 5, 1 / 5],
           rd_progeny = [''E'', ''SF'']\<rparr> \<and>
   rd_half_life_s \<lparr>rd_half_life_s = Fin 10, rd_atomic_mass = 234,
           rd_decay_modes = [alpha, ''SF''], rd_branching_fractions = [4 / 5, 1 / 5],
           rd_progeny = [''E'', ''SF'']\<rparr> \<noteq> PosInf \<and>
   enumerate_chain_paths demo_rd ''E'' ''D'' = [] \<and>
   fst (get_branching_info demo_rd (demo_calc ''D'' [''E''] None None) ''E'' ''D'') =
     Inl (ValueError (not_in_chain_msg ''D'' ''E''))"
proof -
  note h1 = demo_cache_ok [of demo_rd "''D''" "[''E'']" None None]
  have h2: "demo_rd ''D'' =
     Some \<lparr>rd_half_life_s = Fin 10, rd_atomic_mass = 234,
           rd_decay_modes = [alpha, ''SF''], rd_branching_fractions = [4 / 5, 1 / 5],
           rd_progeny = [''E'', ''SF'']\<rparr>"
    by (simp add: demo_rd_def)
  have h3: "rd_half_life_s \<lparr>rd_half_life_s = Fin 10, rd_atomic_mass = 234,
           rd_decay_modes = [alpha, ''SF''], rd_branching_fractions = [4 / 5, 1 / 5],
           rd_progeny = [''E'', ''SF'']\<rparr> \<noteq> PosInf"
    by simp
  from chain_error_iff_no_path_or_negligible [OF h1 h2 h3, of "''E''"]
  have "fst (get_branching_info demo_rd (demo_calc ''D'' [''E''] None None) ''E'' ''D'') =
     Inl (ValueError (not_in_chain_msg ''D'' ''E''))"
    by (simp add: Let_def demo_paths_E_D)
  with h1 h2 h3 demo_paths_E_D show ?thesis by blast
qed

text \<open>
  C10. On an instance whose caches hold only what the computation without caches
  returns (as the caches of a new instance do, being empty), a decay-fraction query and
  a branching-info query return what the computation without caches returns, asking
  the branching info again returns the same, and the caches stay such; the same holds
  of \<open>calculate\<close> and of calling it twice.
\<close>

theorem memoization_is_transparent:
  assumes "cache_ok rd s"
  shows "fst (get_decay_fraction_for_nuclide rd s nuclide) =
           decay_fraction_nocache rd (decay_type s) nuclide \<and>
         fst (get_branching_info rd s parent progeny) =
           branching_info_nocache rd (decay_type s) parent progeny \<and>
         fst (get_branching_info rd (snd (get_branching_info rd s parent progeny))
                parent progeny) =
           fst (get_branching_info rd s parent progeny) \<and>
         cache_ok rd (snd (get_branching_info rd s parent progeny)) \<and>
         fst (calculate rd s) = calculate_nocache rd s \<and>
         fst (calculate rd (snd (calculate rd s))) = fst (calculate rd s) \<and>
         cache_ok rd (snd (calculate rd s))"
proof -
  let ?s1 = "snd (get_branching_info rd s parent progeny)"
  let ?s2 = "snd (calculate rd s)"
  note b = fst_branching_info [OF assms, of parent progeny]
  note c = fst_calculate [OF assms]
  have dt: "decay_type ?s1 = decay_type s"
    using b(3) by (simp add: same_config_def)
  have "fst (get_branching_info rd ?s1 parent progeny) =
        branching_info_nocache rd (decay_type s) parent progeny"
    using fst_branching_info(1) [OF b(2), of parent progeny] dt by simp
  moreover have "fst (calculate rd ?s2) = calculate_nocache rd s"
    using fst_calculate(1) [OF c(2)] calculate_nocache_config [OF c(3), of rd] by simp
  moreover have "fst (get_decay_fraction_for_nuclide rd s nuclide) =
        decay_fraction_nocache rd (decay_type s) nuclide"
    using decay_fraction_refines [OF assms, of nuclide
        "fst (get_decay_fraction_for_nuclide rd s nuclide)"
        "snd (get_decay_fraction_for_nuclide rd s nuclide)"]
    by simp
  ultimately show ?thesis
    using b(1,2) c(1,2) by simp
qed

theorem memoization_is_transparent_witness:
  "init demo_rd ''D'' 100 [''A'', ''E'', ''D''] (Some alpha) (Some 5) True =
     Inr (demo_calc ''D'' [''A'', ''E'', ''D''] (Some alpha) (Some 5)) \<and>
   cache_ok demo_rd (demo_calc ''D'' [''A'', ''E'', ''D''] (Some alpha) (Some 5)) \<and>
   branching_cache
     (snd (get_branching_info demo_rd
             (demo_calc ''D'' [''A'', ''E'', ''D''] (Some alpha) (Some 5)) ''A'' ''D''))
     (''A'', ''D'', Some alpha) = Some demo_info \<and>
   fst (get_branching_info demo_rd
          (snd (get_branching_info demo_rd
                  (demo_calc ''D'' [''A'', ''E'', ''D''] (Some alpha) (Some 5)) ''A'' ''D''))
          ''A'' ''D'') =
     fst (get_branching_info demo_rd
            (demo_calc ''D'' [''A'', ''E'', ''D''] (Some alpha) (Some 5)) ''A'' ''D'') \<and>
   fst (calculate demo_rd
          (snd (calculate demo_rd (demo_calc ''D'' [''A'', ''E'', ''D''] (Some alpha) (Some 5))))) =
     fst (calculate demo_rd (demo_calc ''D'' [''A'', ''E'', ''D''] (Some alpha) (Some 5)))"
proof -
  let ?s = "demo_calc ''D'' [''A'', ''E'', ''D''] (Some alpha) (Some 5)"
  have h0: "init demo_rd ''D'' 100 [''A'', ''E'', ''D''] (Some alpha) (Some 5) True = Inr ?s"
    by (simp add: init_def validate_nuclides_def demo_calc_def VALID_DECAY_TYPES_def
        is_nuclide_name_def demo_rd_def alpha_def beta_def)
  note h1 = init_cache_ok [OF h0]
  have h2: "branching_cache (snd (get_branching_info demo_rd ?s ''A'' ''D''))
     (''A'', ''D'', Some alpha) = Some demo_info"
    by (simp add: get_branching_info_def demo_calc_def get_decay_fraction_for_nuclide_def
      demo_paths_A_D sort_paths_def Let_def demo_rd_def alpha_def beta_def py_in_def
      sublist_Cons_right demo_info_def)
  from memoization_is_transparent [OF h1, of "''D''" "''A''" "''D''"] h0 h1 h2
  show ?thesis by simp
qed

section \<open>The record of one ancestor\<close>

lemma parent_result_success:
  assumes "parent_result rd s parent info = Inr r"
  shows "info_branching_ratio info \<noteq> 0 \<and>
     (\<exists>pn. rd parent = Some pn \<and>
        error r = None \<and>
        branching_ratio r = info_branching_ratio info \<and>
        activity_Bq r = measured_activity s / info_branching_ratio info \<and>
        atomic_mass r = Some (rd_atomic_mass pn) \<and>
        (case rd_half_life_s pn of
           PosInf \<Rightarrow> mass_g r = PosInf \<and> halflife_yr r = PosInf
         | Fin h \<Rightarrow>
             h \<noteq> 0 \<and>
             mass_g r = Fin (activity_Bq r *
                          (rd_atomic_mass pn / (avogadro_number * (ln 2 / h)))) \<and>
             halflife_yr r = Fin (h / seconds_per_year)) \<and>
        (case measured_activity_uncertainty s of
           None \<Rightarrow> activity_uncertainty_Bq r = None \<and> mass_uncertainty_g r = None \<and>
                   relative_uncertainty r = None
         | Some u \<Rightarrow>
             activity_uncertainty_Bq r = Some (u / info_branching_ratio info) \<and>
             mass_uncertainty_g r =
               Some (case rd_half_life_s pn of
                       PosInf \<Rightarrow> PosInf
                     | Fin h \<Rightarrow>
                         Fin (u / info_branching_ratio info *
                              (rd_atomic_mass pn / (avogadro_number * (ln 2 / h))))) \<and>
             relative_uncertainty r =
               Some (if activity_Bq r = 0 then None
                     else Some (u / info_branching_ratio info / \<bar>activity_Bq r\<bar>))))"
proof -
  from assms have br: "info_branching_ratio info \<noteq> 0"
    by (auto simp: parent_result_def py_div_def Let_def split: if_splits)
  from assms br obtain pn where pn: "rd parent = Some pn"
    by (cases "rd parent") (auto simp: parent_result_def py_div_def Let_def)
  show ?thesis
  proof (cases "rd_half_life_s pn")
    case PosInf
    with assms br pn show ?thesis
      by (cases "measured_activity_uncertainty s")
        (auto simp: parent_result_def py_div_def Let_def)
  next
    case (Fin h)
    with assms br pn have h: "h \<noteq> 0"
      by (auto simp: parent_result_def py_div_def Let_def split: if_splits)
    have "avogadro_number * (ln 2 / h) \<noteq> 0"
      using h by (simp add: avogadro_number_def)
    with assms br pn Fin h show ?thesis
      by (cases "measured_activity_uncertainty s")
        (auto simp: parent_result_def py_div_def Let_def)
  qed
qed

lemma parent_result_failure:
  assumes "parent_result rd s parent info = Inl e"
    and "info_branching_ratio info \<noteq> 0"
    and "rd parent = Some pn"
  shows "e = ZeroDivisionError \<and> rd_half_life_s pn = Fin 0"
proof (cases "rd_half_life_s pn")
  case PosInf
  with assms show ?thesis
    by (cases "measured_activity_uncertainty s")
      (auto simp: parent_result_def py_div_def Let_def)
next
  case (Fin h)
  show ?thesis
  proof (cases "h = 0")
    case True
    with assms Fin show ?thesis
      by (auto simp: parent_result_def py_div_def Let_def)
  next
    case False
    then have "avogadro_number * (ln 2 / h) \<noteq> 0"
      by (simp add: avogadro_number_def)
    with assms Fin False show ?thesis
      by (cases "measured_activity_uncertainty s")
        (auto simp: parent_result_def py_div_def Let_def)
  qed
qed

lemma nonempty_paths_parent_known:
  assumes "enumerate_chain_paths rd parent progeny \<noteq> []"
    and "rd progeny = Some pn"
  shows "rd parent \<noteq> None"
proof (cases "parent = progeny")
  case True
  with assms(2) show ?thesis by simp
next
  case False
  with assms(1) have "dfs rd progeny parent {parent} [parent] [] [] 1 0 \<noteq> []"
    by (simp add: enumerate_chain_paths_def)
  then obtain p where "p \<in> set (dfs rd progeny parent {parent} [parent] [] [] 1 0)"
    by (cases "dfs rd progeny parent {parent} [parent] [] [] 1 0") auto
  from dfs_cases [OF this] False show ?thesis by auto
qed

lemma nocache_success_parent_known:
  assumes "branching_info_nocache rd dto parent progeny = Inr info"
  shows "rd parent \<noteq> None"
  using nocache_success [OF assms] nonempty_paths_parent_known [of rd parent progeny]
  by blast

section \<open>The batch on the small network\<close>

lemma avogadro_nonzero: "avogadro_number \<noteq> 0"
  by (simp add: avogadro_number_def)

lemma demo_batch_ok: "cache_ok demo_rd demo_batch"
  by (simp add: demo_batch_def demo_cache_ok)

lemma demo_nocache_A:
  "branching_info_nocache demo_rd (Some alpha) ''A'' ''D'' = Inr demo_info"
  using fst_branching_info(1) [OF demo_cache_ok, of demo_rd "''D''" "[''A'']" "Some alpha" None
      "''A''" "''D''"] demo_info_A_D
  by (simp add: demo_calc_def)

lemma demo_nocache_E:
  "branching_info_nocache demo_rd (Some alpha) ''E'' ''D'' =
     Inl (ValueError (not_in_chain_msg ''D'' ''E''))"
  by (simp add: branching_info_nocache_def demo_paths_E_D Let_def demo_rd_def)

lemma demo_nocache_D:
  "branching_info_nocache demo_rd (Some alpha) ''D'' ''D'' =
     Inr \<lparr>info_branching_ratio = 1,
          info_paths = [\<lparr>nodes = [''D''], decay_modes = [], step_branching_fractions = [],
                         chain_branching_ratio = 1, decay_type_fraction_at_measured = 1,
                         path_branching_ratio = 1\<rparr>],
          info_decay_type_fraction_at_measured = 1\<rparr>"
proof -
  have "demo_rd ''D'' =
     Some \<lparr>rd_half_life_s = Fin 10, rd_atomic_mass = 234,
           rd_decay_modes = [alpha, ''SF''], rd_branching_fractions = [4 / 5, 1 / 5],
           rd_progeny = [''E'', ''SF'']\<rparr>"
    by (simp add: demo_rd_def)
  from nocache_self [of demo_rd "''D''" _ "Some alpha", OF this] show ?thesis
    by simp
qed

lemma demo_parent_result_A:
  "parent_result demo_rd demo_batch ''A'' demo_info = Inr demo_result_A"
  by (simp add: parent_result_def demo_batch_def demo_calc_def demo_info_def py_div_def
      demo_rd_def Let_def avogadro_nonzero demo_result_A_def)

lemma demo_parent_result_D:
  "parent_result demo_rd demo_batch ''D''
     \<lparr>info_branching_ratio = 1,
      info_paths = [\<lparr>nodes = [''D''], decay_modes = [], step_branching_fractions = [],
                     chain_branching_ratio = 1, decay_type_fraction_at_measured = 1,
                     path_branching_ratio = 1\<rparr>],
      info_decay_type_fraction_at_measured = 1\<rparr> = Inr demo_result_D"
  by (simp add: parent_result_def demo_batch_def demo_calc_def py_div_def
      demo_rd_def Let_def avogadro_nonzero demo_result_D_def)

lemma demo_batch_fields:
  "decay_type demo_batch = Some alpha" "measured_nuclide demo_batch = ''D''"
  "parent_nuclides demo_batch = [''A'', ''E'', ''D'']"
  "measured_activity_uncertainty demo_batch = Some 5"
  "measured_activity demo_batch = 100"
  by (simp_all add: demo_batch_def demo_calc_def)

lemma demo_calculate: "fst (calculate demo_rd demo_batch) = Inr demo_results"
  unfolding fst_calculate(1) [OF demo_batch_ok] calculate_nocache_def demo_batch_fields
    calculate_loop_nocache.simps demo_nocache_A demo_nocache_E demo_nocache_D
  by (simp only: sum.case error.case demo_parent_result_A demo_parent_result_D demo_results_def)

lemma calculate_results:
  assumes "cache_ok rd s" and "fst (calculate rd s) = Inr out"
  shows "(\<forall>p. p \<notin> set (parent_nuclides s) \<longrightarrow> out p = None) \<and>
     (\<forall>p \<in> set (parent_nuclides s).
        case fst (get_branching_info rd s p (measured_nuclide s)) of
          Inl e \<Rightarrow> (\<exists>msg. e = ValueError msg \<and> out p = Some (failure_result s msg))
        | Inr info \<Rightarrow> (\<exists>r. parent_result rd s p info = Inr r \<and> out p = Some r))"
proof -
  from assms have "calculate_loop_nocache rd s (parent_nuclides s) Map.empty = Inr out"
    by (simp add: fst_calculate(1) calculate_nocache_def)
  from loop_nocache_lookup [OF this] show ?thesis
    by (simp add: fst_branching_info(1) [OF assms(1)])
qed

lemma failure_result_error: "error (failure_result s msg) = Some msg"
  by (simp add: failure_result_def)

lemma success_record:
  assumes "cache_ok rd s" and "fst (calculate rd s) = Inr out"
    and "out p = Some r" and "error r = None"
  shows "p \<in> set (parent_nuclides s) \<and>
     (\<exists>info. fst (get_branching_info rd s p (measured_nuclide s)) = Inr info \<and>
             parent_result rd s p info = Inr r)"
proof -
  note cr = calculate_results [OF assms(1,2)]
  from cr assms(3) have p: "p \<in> set (parent_nuclides s)"
    by (cases "p \<in> set (parent_nuclides s)") auto
  show ?thesis
  proof (cases "fst (get_branching_info rd s p (measured_nuclide s))")
    case (Inl e)
    with cr p obtain msg where "out p = Some (failure_result s msg)"
      by fastforce
    with assms(3) have "r = failure_result s msg" by simp
    with assms(4) failure_result_error [of s msg] show ?thesis by simp
  next
    case (Inr info)
    with cr p obtain r' where "parent_result rd s p info = Inr r'" "out p = Some r'"
      by fastforce
    with assms(3) Inr p show ?thesis by simp
  qed
qed

text \<open>
  C6. In a dictionary that \<open>calculate\<close> returns, a record without an error belongs to an
  ancestor that the provider knows: when its half-life is finite, the half-life is not
  zero and the mass is activity times atomic mass over Avogadro's number times
  \<open>ln 2 / half-life\<close>; when the half-life is infinite, the mass is plus infinity.
\<close>

theorem mass_from_activity_and_half_life:
  assumes "cache_ok rd s" and "fst (calculate rd s) = Inr out"
    and "out p = Some r" and "error r = None"
  shows "\<exists>pn. rd p = Some pn \<and>
     (case rd_half_life_s pn of
        PosInf \<Rightarrow> mass_g r = PosInf
      | Fin h \<Rightarrow>
          h \<noteq> 0 \<and>
          mass_g r = Fin (activity_Bq r * rd_atomic_mass pn / (avogadro_number * (ln 2 / h))))"
proof -
  from success_record [OF assms] obtain info where
    "parent_result rd s p info = Inr r"
    by blast
  from parent_result_success [OF this] obtain pn where
    pn: "rd p = Some pn"
    and m: "case rd_half_life_s pn of
           PosInf \<Rightarrow> mass_g r = PosInf \<and> halflife_yr r = PosInf
         | Fin h \<Rightarrow>
             h \<noteq> 0 \<and>
             mass_g r = Fin (activity_Bq r *
                          (rd_atomic_mass pn / (avogadro_number * (ln 2 / h)))) \<and>
             halflife_yr r = Fin (h / seconds_per_year)"
    by blast
  from m have "case rd_half_life_s pn of
        PosInf \<Rightarrow> mass_g r = PosInf
      | Fin h \<Rightarrow>
          h \<noteq> 0 \<and>
          mass_g r = Fin (activity_Bq r * rd_atomic_mass pn / (avogadro_number * (ln 2 / h)))"
    by (cases "rd_half_life_s pn") simp_all
  with pn show ?thesis by blast
qed

theorem mass_from_activity_and_half_life_witness:
  "cache_ok demo_rd demo_batch \<and>
   fst (calculate demo_rd demo_batch) = Inr demo_results \<and>
   demo_results ''A'' = Some demo_result_A \<and>
   error demo_result_A = None \<and>
   rd_half_life_s (the (demo_rd ''A'')) = Fin 1000000 \<and>
   mass_g demo_result_A =
     Fin (activity_Bq demo_result_A * rd_atomic_mass (the (demo_rd ''A'')) /
          (avogadro_number * (ln 2 / 1000000)))"
proof -
  have h3: "demo_results ''A'' = Some demo_result_A"
    by (simp add: demo_results_def)
  have h4: "error demo_result_A = None"
    by (simp add: demo_result_A_def)
  have h5: "rd_half_life_s (the (demo_rd ''A'')) = Fin 1000000"
    by (simp add: demo_rd_def)
  from mass_from_activity_and_half_life [OF demo_batch_ok demo_calculate h3 h4] h5
  have "mass_g demo_result_A =
     Fin (activity_Bq demo_result_A * rd_atomic_mass (the (demo_rd ''A'')) /
          (avogadro_number * (ln 2 / 1000000)))"
    by auto
  with demo_batch_ok demo_calculate h3 h4 h5 show ?thesis by blast
qed

section \<open>Rounding to a double\<close>

lemma rne_error: "\<bar>of_int (rne q) - q\<bar> \<le> 1 / 2"
proof -
  have "of_int \<lfloor>q\<rfloor> \<le> q" "q < of_int \<lfloor>q\<rfloor> + 1"
    by linarith+
  then show ?thesis
    by (auto simp: rne_def Let_def)
qed

lemma binade_eq:
  assumes "2 powi e \<le> \<bar>x\<bar>" and "\<bar>x\<bar> < 2 powi (e + 1)" and "- 1022 \<le> e"
  shows "binade x = e"
proof -
  have pos: "0 < \<bar>x\<bar>"
    using assms(1) zero_less_power_int [of "2::real" e] by linarith
  have "(2::real) powr (of_int e) = 2 powi e" "(2::real) powr (of_int e + 1) = 2 powi (e + 1)"
    using powr_real_of_int' [of "2::real" e] powr_real_of_int' [of "2::real" "e + 1"]
    by simp_all
  with assms have "\<lfloor>log 2 \<bar>x\<bar>\<rfloor> = e"
    using floor_log_eq_powr_iff [of "\<bar>x\<bar>" 2 e] pos by simp
  with assms(3) show ?thesis
    by (simp add: binade_def)
qed

lemma binade_normal:
  assumes "2 powi (- 1022) \<le> \<bar>x\<bar>"
  shows "2 powi (binade x) \<le> \<bar>x\<bar>"
proof -
  have pos: "0 < \<bar>x\<bar>"
    using assms zero_less_power_int [of "2::real" "- 1022"] by linarith
  define k where "k = \<lfloor>log 2 \<bar>x\<bar>\<rfloor>"
  have "(2::real) powr (of_int k) \<le> \<bar>x\<bar>"
    using floor_log_eq_powr_iff [of "\<bar>x\<bar>" 2 k] pos by (simp add: k_def)
  then have k: "2 powi k \<le> \<bar>x\<bar>"
    using powr_real_of_int' [of "2::real" k] by simp
  show ?thesis
  proof (cases "- 1022 \<le> k")
    case True
    then have "binade x = k" by (simp add: binade_def k_def)
    with k show ?thesis by simp
  next
    case False
    then have "binade x = - 1022" by (simp add: binade_def k_def)
    with assms show ?thesis by simp
  qed
qed

lemma round_real_error:
  assumes "2 powi (- 1022) \<le> \<bar>x\<bar>"
  shows "\<bar>round_real x - x\<bar> \<le> \<bar>x\<bar> / 2 ^ 53"
proof -
  define k where "k = binade x - 52"
  define u :: real where "u = 2 powi k"
  have upos: "0 < u" by (simp add: u_def)
  have x0: "x \<noteq> 0"
    using assms zero_less_power_int [of "2::real" "- 1022"] by auto
  have "2 powi (binade x) = u * 2 ^ 52"
    unfolding u_def k_def by (simp add: power_int_diff)
  with binade_normal [OF assms] have ux: "u * 2 ^ 52 \<le> \<bar>x\<bar>" by simp
  have "round_real x - x = (of_int (rne (x / u)) - x / u) * u"
    using x0 upos by (simp add: round_real_def k_def u_def field_simps)
  then have "\<bar>round_real x - x\<bar> = \<bar>of_int (rne (x / u)) - x / u\<bar> * u"
    using upos by (simp add: abs_mult)
  also have "\<dots> \<le> 1 / 2 * u"
    using rne_error [of "x / u"] upos by (intro mult_right_mono) simp_all
  also have "\<dots> \<le> \<bar>x\<bar> / 2 ^ 53"
    using ux by (simp add: field_simps)
  finally show ?thesis .
qed

lemma rne_eq:
  assumes "of_int n - 1 / 2 < q" and "q < of_int n + 1 / 2"
  shows "rne q = n"
proof -
  have "\<lfloor>q\<rfloor> = n \<or> \<lfloor>q\<rfloor> = n - 1"
    using assms by (simp add: floor_eq_iff) linarith
  then show ?thesis
  proof
    assume f: "\<lfloor>q\<rfloor> = n"
    with assms show ?thesis by (simp add: rne_def Let_def)
  next
    assume f: "\<lfloor>q\<rfloor> = n - 1"
    with assms show ?thesis by (simp add: rne_def Let_def)
  qed
qed

lemma round64_eval:
  assumes "2 powi e \<le> \<bar>x\<bar>" and "\<bar>x\<bar> < 2 powi (e + 1)" and "- 1022 \<le> e"
    and "of_int n - 1 / 2 < x / 2 powi (e - 52)"
    and "x / 2 powi (e - 52) < of_int n + 1 / 2"
    and "\<bar>of_int n * 2 powi (e - 52)\<bar> < (2::real) ^ 1024"
  shows "round64 x = Dbl (of_int n * 2 powi (e - 52))"
proof -
  have x0: "x \<noteq> 0"
  proof
    assume "x = 0"
    with assms(1) have "(2::real) powi e \<le> 0" by simp
    moreover have "(0::real) < 2 powi e" by simp
    ultimately show False by linarith
  qed
  have "round_real x = of_int n * 2 powi (e - 52)"
    using x0 by (simp add: round_real_def binade_eq [OF assms(1-3)] rne_eq [OF assms(4,5)])
  with assms(6) show ?thesis
    by (auto simp: round64_def Let_def)
qed

lemma quotient_error:
  fixes x y p q eps :: real
  assumes x: "\<bar>x - q\<bar> \<le> eps * \<bar>q\<bar>" and y: "\<bar>y - p\<bar> \<le> eps * \<bar>p\<bar>"
    and q: "q \<noteq> 0" and eps: "0 \<le> eps" "eps \<le> 1 / 2"
  shows "x \<noteq> 0" and "\<bar>y / x - p / q\<bar> \<le> 4 * eps * \<bar>p / q\<bar>"
    and "0 < x \<longleftrightarrow> 0 < q"
proof -
  have qpos: "0 < \<bar>q\<bar>" using q by simp
  have "eps * \<bar>q\<bar> \<le> 1 / 2 * \<bar>q\<bar>"
    using eps by (intro mult_right_mono) simp_all
  with x have xq: "\<bar>x - q\<bar> \<le> 1 / 2 * \<bar>q\<bar>" by linarith
  then have lower: "1 / 2 * \<bar>q\<bar> \<le> \<bar>x\<bar>" by linarith
  with qpos show x0: "x \<noteq> 0" by auto
  from xq qpos show "0 < x \<longleftrightarrow> 0 < q" by (auto simp: abs_if split: if_splits)
  have "y * q - p * x = (y - p) * q - p * (x - q)"
    by (simp add: algebra_simps)
  then have "\<bar>y * q - p * x\<bar> \<le> \<bar>y - p\<bar> * \<bar>q\<bar> + \<bar>p\<bar> * \<bar>x - q\<bar>"
    by (metis abs_mult abs_triangle_ineq4)
  also have "\<dots> \<le> eps * \<bar>p\<bar> * \<bar>q\<bar> + \<bar>p\<bar> * (eps * \<bar>q\<bar>)"
    using x y by (intro add_mono mult_right_mono mult_left_mono) simp_all
  finally have num: "\<bar>y * q - p * x\<bar> \<le> 2 * eps * \<bar>p\<bar> * \<bar>q\<bar>"
    by (simp add: algebra_simps)
  have den: "1 / 2 * \<bar>q\<bar> * \<bar>q\<bar> \<le> \<bar>x\<bar> * \<bar>q\<bar>"
    using lower by (intro mult_right_mono) simp_all
  have denpos: "0 < 1 / 2 * \<bar>q\<bar> * \<bar>q\<bar>"
    using qpos by (intro mult_pos_pos) simp_all
  have "y / x - p / q = (y * q - p * x) / (x * q)"
    using x0 q by (simp add: field_simps)
  then have "\<bar>y / x - p / q\<bar> = \<bar>y * q - p * x\<bar> / (\<bar>x\<bar> * \<bar>q\<bar>)"
    by (simp add: abs_mult)
  also have "\<dots> \<le> (2 * eps * \<bar>p\<bar> * \<bar>q\<bar>) / (1 / 2 * \<bar>q\<bar> * \<bar>q\<bar>)"
    using num den denpos by (intro frac_le) simp_all
  also have "\<dots> = 4 * eps * \<bar>p / q\<bar>"
    using q by (simp add: field_simps)
  finally show "\<bar>y / x - p / q\<bar> \<le> 4 * eps * \<bar>p / q\<bar>" .
qed

lemma round64_Dbl: "round64 z = Dbl x \<Longrightarrow> x = round_real z"
  by (auto simp: round64_def Let_def split: if_splits)

lemma float_div_finite:
  "y \<noteq> 0 \<Longrightarrow> float_div (Dbl x) (Dbl y) = Inr (round64 (x / y))"
  by (simp add: float_div_def)

lemma float_div_raises_iff: "(\<exists>e. float_div a b = Inl e) \<longleftrightarrow> b = Dbl 0"
  by (cases a; cases b) (auto simp: float_div_def)

lemma float_abs_zero_iff: "float_abs a = Dbl 0 \<longleftrightarrow> a = Dbl 0"
  by (cases a) (auto simp: float_abs_def)

lemma ancestor_quotients_finite:
  assumes "br \<noteq> 0"
  shows "\<exists>rel. ancestor_quotients (Dbl m) (Dbl u) (Dbl br) =
                 Inr (round64 (m / br), round64 (u / br), rel) \<and>
               (rel = None \<longleftrightarrow> round64 (m / br) = Dbl 0) \<and>
               (\<forall>d. rel = Some d \<longrightarrow>
                  float_div (round64 (u / br)) (float_abs (round64 (m / br))) = Inr d)"
proof (cases "round64 (m / br) = Dbl 0")
  case True
  with assms show ?thesis
    by (simp add: ancestor_quotients_def float_div_finite)
next
  case False
  then have "float_abs (round64 (m / br)) \<noteq> Dbl 0"
    by (simp add: float_abs_zero_iff)
  then obtain d where
    d: "float_div (round64 (u / br)) (float_abs (round64 (m / br))) = Inr d"
    using float_div_raises_iff [of "round64 (u / br)" "float_abs (round64 (m / br))"]
    by (cases "float_div (round64 (u / br)) (float_abs (round64 (m / br)))") auto
  with assms False show ?thesis
    by (simp add: ancestor_quotients_def float_div_finite)
qed

text \<open>
  The branching ratio of a successful query is positive: it is not below \<open>1e-15\<close>.
\<close>

lemma branching_ratio_positive:
  assumes "cache_ok rd s"
    and "fst (get_branching_info rd s parent progeny) = Inr info"
  shows "0 < info_branching_ratio info"
  using assms nocache_ratio_pos [of rd "decay_type s" parent progeny info]
  by (simp add: fst_branching_info(1))

text \<open>
  C7, as the code has it. For a finite measured activity \<open>m\<close>, a finite uncertainty
  \<open>u\<close> and a branching ratio \<open>br > 0\<close>, as every successful ancestor has one, lines
  330, 354 and 360 to 363 do not raise: the ancestor activity is the double nearest to \<open>m / br\<close>, the activity
  uncertainty the double nearest to \<open>u / br\<close>, and the relative uncertainty is the
  null value exactly when the computed activity is zero. Where the two quotients
  neither overflow nor fall below the smallest normal double, the computed activity is
  not zero and the quotient of the two stored doubles differs from \<open>u / m\<close> by at most
  \<open>2\<^sup>-\<^sup>5\<^sup>1\<close> of it; the stored relative uncertainty, when it is finite and that
  quotient is in the normal range, differs from \<open>u / \<bar>m\<bar>\<close> by at most \<open>2\<^sup>-\<^sup>5\<^sup>0\<close> of it.
\<close>

theorem quotients_agree_up_to_rounding:
  assumes "0 < br"
  shows "\<exists>rel. ancestor_quotients (Dbl m) (Dbl u) (Dbl br) =
                 Inr (round64 (m / br), round64 (u / br), rel) \<and>
               (rel = None \<longleftrightarrow> round64 (m / br) = Dbl 0) \<and>
               (\<forall>x y. round64 (m / br) = Dbl x \<longrightarrow> round64 (u / br) = Dbl y \<longrightarrow>
                  2 powi (- 1022) \<le> \<bar>m / br\<bar> \<longrightarrow> 2 powi (- 1022) \<le> \<bar>u / br\<bar> \<longrightarrow>
                  x \<noteq> 0 \<and> \<bar>y / x - u / m\<bar> \<le> \<bar>u / m\<bar> / 2 ^ 51 \<and>
                  (\<forall>r. rel = Some (Dbl r) \<longrightarrow> 2 powi (- 1022) \<le> \<bar>y / x\<bar> \<longrightarrow>
                     \<bar>r - u / \<bar>m\<bar>\<bar> \<le> \<bar>u / m\<bar> / 2 ^ 50))"
proof -
  from assms have br0: "br \<noteq> 0" by simp
  from ancestor_quotients_finite [OF br0, of m u] obtain rel where
    run: "ancestor_quotients (Dbl m) (Dbl u) (Dbl br) =
            Inr (round64 (m / br), round64 (u / br), rel)"
    and none: "rel = None \<longleftrightarrow> round64 (m / br) = Dbl 0"
    and some: "\<And>d. rel = Some d \<Longrightarrow>
            float_div (round64 (u / br)) (float_abs (round64 (m / br))) = Inr d"
    by blast
  have bound: "x \<noteq> 0 \<and> \<bar>y / x - u / m\<bar> \<le> \<bar>u / m\<bar> / 2 ^ 51 \<and>
      (\<forall>r. rel = Some (Dbl r) \<longrightarrow> 2 powi (- 1022) \<le> \<bar>y / x\<bar> \<longrightarrow>
         \<bar>r - u / \<bar>m\<bar>\<bar> \<le> \<bar>u / m\<bar> / 2 ^ 50)"
    if a: "round64 (m / br) = Dbl x" and v: "round64 (u / br) = Dbl y"
      and nq: "2 powi (- 1022) \<le> \<bar>m / br\<bar>" and np: "2 powi (- 1022) \<le> \<bar>u / br\<bar>"
    for x y
  proof -
    define eps :: real where "eps = 1 / 2 ^ 53"
    define q where "q = m / br"
    define p where "p = u / br"
    have eps: "0 \<le> eps" "eps \<le> 1 / 2" by (simp_all add: eps_def)
    have "(0::real) < 2 powi (- 1022)" by simp
    with nq have q0: "q \<noteq> 0" unfolding q_def by linarith
    then have m0: "m \<noteq> 0" by (auto simp: q_def)
    have pq: "p / q = u / m"
      using br0 by (simp add: p_def q_def)
    have ex: "\<bar>x - q\<bar> \<le> eps * \<bar>q\<bar>"
      using round_real_error [OF nq] round64_Dbl [OF a] by (simp add: q_def eps_def)
    have ey: "\<bar>y - p\<bar> \<le> eps * \<bar>p\<bar>"
      using round_real_error [OF np] round64_Dbl [OF v] by (simp add: p_def eps_def)
    note qe = quotient_error [OF ex ey q0 eps]
    have x0: "x \<noteq> 0" by (rule qe(1))
    have d: "\<bar>y / x - u / m\<bar> \<le> 4 * eps * \<bar>u / m\<bar>"
      using qe(2) by (simp add: pq)
    then have d51: "\<bar>y / x - u / m\<bar> \<le> \<bar>u / m\<bar> / 2 ^ 51"
      by (simp add: eps_def)
    have sign: "0 < x \<longleftrightarrow> 0 < m"
      using qe(3) assms by (simp add: q_def zero_less_divide_iff)
    have flip: "\<bar>y / \<bar>x\<bar> - u / \<bar>m\<bar>\<bar> = \<bar>y / x - u / m\<bar>"
    proof (cases "0 < m")
      case True
      with sign show ?thesis by simp
    next
      case False
      with sign m0 x0 have "m < 0" "x < 0" by auto
      then have "y / \<bar>x\<bar> - u / \<bar>m\<bar> = - (y / x - u / m)"
        by simp
      then show ?thesis by simp
    qed
    have r: "\<bar>r - u / \<bar>m\<bar>\<bar> \<le> \<bar>u / m\<bar> / 2 ^ 50"
      if rel: "rel = Some (Dbl r)" and nz: "2 powi (- 1022) \<le> \<bar>y / x\<bar>" for r
    proof -
      define w where "w = \<bar>u / m\<bar>"
      define t where "t = \<bar>y / x\<bar>"
      define g where "g = \<bar>y / x - u / m\<bar>"
      have w0: "0 \<le> w" by (simp add: w_def)
      have dg: "g \<le> 4 * eps * w"
        using d by (simp only: g_def w_def)
      from some [OF rel] a v x0 have "round64 (y / \<bar>x\<bar>) = Dbl r"
        by (simp add: float_abs_def float_div_finite)
      then have rr: "r = round_real (y / \<bar>x\<bar>)" by (rule round64_Dbl)
      have tt: "\<bar>y / \<bar>x\<bar>\<bar> = t" by (simp add: t_def)
      with nz have nz': "2 powi (- 1022) \<le> \<bar>y / \<bar>x\<bar>\<bar>" by (simp add: t_def)
      from round_real_error [OF nz'] rr
      have e3: "\<bar>r - y / \<bar>x\<bar>\<bar> \<le> eps * t"
        unfolding tt by (simp add: eps_def)
      have "t \<le> w + g"
        unfolding t_def w_def g_def by linarith
      with dg have "t \<le> w + 4 * eps * w" by linarith
      moreover have "4 * eps * w \<le> 1 * w"
        using w0 by (intro mult_right_mono) (simp_all add: eps_def)
      ultimately have t2: "t \<le> 2 * w" by linarith
      have "eps * t \<le> eps * (2 * w)"
        using t2 eps(1) by (intro mult_left_mono)
      then have "eps * t \<le> 2 * eps * w" by (simp only: mult.left_commute mult.assoc)
      with e3 have e3': "\<bar>r - y / \<bar>x\<bar>\<bar> \<le> 2 * eps * w" by linarith
      have fl: "\<bar>y / \<bar>x\<bar> - u / \<bar>m\<bar>\<bar> = g"
        using flip by (simp only: g_def)
      have "\<bar>r - u / \<bar>m\<bar>\<bar> \<le> \<bar>r - y / \<bar>x\<bar>\<bar> + \<bar>y / \<bar>x\<bar> - u / \<bar>m\<bar>\<bar>"
        by linarith
      with e3' fl dg have "\<bar>r - u / \<bar>m\<bar>\<bar> \<le> 2 * eps * w + 4 * eps * w"
        by linarith
      moreover have "2 * eps * w + 4 * eps * w = 6 * eps * w" by (simp add: algebra_simps)
      moreover have "6 * eps * w \<le> 1 / 2 ^ 50 * w"
        using w0 by (intro mult_right_mono) (simp_all add: eps_def)
      ultimately have "\<bar>r - u / \<bar>m\<bar>\<bar> \<le> 1 / 2 ^ 50 * w" by linarith
      then show ?thesis by (simp add: w_def)
    qed
    from x0 d51 r show ?thesis by blast
  qed
  from run none bound show ?thesis by blast
qed

lemma double_activity: "round64 (100 / (3 / 4)) = Dbl (4691249611844267 / 2 ^ 45)"
  using round64_eval [of 7 "100 / (3 / 4)" 4691249611844267] by simp

lemma double_uncertainty: "round64 (5 / (3 / 4)) = Dbl (7505999378950827 / 2 ^ 50)"
  using round64_eval [of 2 "5 / (3 / 4)" 7505999378950827] by simp

lemma double_relative:
  "round64 (7505999378950827 / 2 ^ 50 / \<bar>4691249611844267 / 2 ^ 45\<bar>) =
     Dbl (7205759403792793 / 2 ^ 57)"
  using round64_eval [of "- 5" "7505999378950827 / 2 ^ 50 / \<bar>4691249611844267 / 2 ^ 45\<bar>"
      7205759403792793]
  by simp

lemma double_measured_relative: "round64 (5 / 100) = Dbl (7205759403792794 / 2 ^ 57)"
  using round64_eval [of "- 5" "5 / 100" 7205759403792794] by simp

lemma double_three_quarters: "round64 (3 / 4) = Dbl (3 / 4)"
  using round64_eval [of "- 1" "3 / 4" 6755399441055744] by simp

lemma demo_paths_A_B:
  "enumerate_chain_paths demo_rd ''A'' ''B'' =
     [\<lparr>nodes = [''A'', ''B''], decay_modes = [alpha],
       step_branching_fractions = [3 / 4], chain_branching_ratio = 3 / 4\<rparr>]"
  by (simp add: demo_eval)

lemma demo_info_A_B:
  "fst (get_branching_info demo_rd (demo_calc ''B'' [''A''] None (Some 5)) ''A'' ''B'') =
     Inr \<lparr>info_branching_ratio = 3 / 4,
          info_paths = [\<lparr>nodes = [''A'', ''B''], decay_modes = [alpha],
                         step_branching_fractions = [3 / 4], chain_branching_ratio = 3 / 4,
                         decay_type_fraction_at_measured = 1,
                         path_branching_ratio = 3 / 4\<rparr>],
          info_decay_type_fraction_at_measured = 1\<rparr>"
  by (simp add: get_branching_info_def demo_calc_def demo_paths_A_B sort_paths_def Let_def
      demo_rd_def)

lemma demo_quotients:
  "ancestor_quotients (Dbl 100) (Dbl 5) (Dbl (3 / 4)) =
     Inr (Dbl (4691249611844267 / 2 ^ 45), Dbl (7505999378950827 / 2 ^ 50),
          Some (Dbl (7205759403792793 / 2 ^ 57)))"
  by (simp add: ancestor_quotients_def float_div_finite float_abs_def
      double_activity [simplified] double_uncertainty [simplified]
      double_relative [simplified])

theorem quotients_agree_up_to_rounding_witness:
  "fst (get_branching_info demo_rd (demo_calc ''B'' [''A''] None (Some 5)) ''A'' ''B'') =
     Inr \<lparr>info_branching_ratio = 3 / 4,
          info_paths = [\<lparr>nodes = [''A'', ''B''], decay_modes = [alpha],
                         step_branching_fractions = [3 / 4], chain_branching_ratio = 3 / 4,
                         decay_type_fraction_at_measured = 1,
                         path_branching_ratio = 3 / 4\<rparr>],
          info_decay_type_fraction_at_measured = 1\<rparr> \<and>
   (0::real) < 3 / 4 \<and>
   ancestor_quotients (Dbl 100) (Dbl 5) (Dbl (3 / 4)) =
     Inr (round64 (100 / (3 / 4)), round64 (5 / (3 / 4)),
          Some (Dbl (7205759403792793 / 2 ^ 57))) \<and>
   round64 (100 / (3 / 4)) = Dbl (4691249611844267 / 2 ^ 45) \<and>
   round64 (5 / (3 / 4)) = Dbl (7505999378950827 / 2 ^ 50) \<and>
   2 powi (- 1022) \<le> \<bar>100 / (3 / 4) :: real\<bar> \<and>
   2 powi (- 1022) \<le> \<bar>5 / (3 / 4) :: real\<bar> \<and>
   2 powi (- 1022) \<le>
     \<bar>7505999378950827 / 2 ^ 50 / (4691249611844267 / 2 ^ 45) :: real\<bar> \<and>
   \<bar>7505999378950827 / 2 ^ 50 / (4691249611844267 / 2 ^ 45) - 5 / 100 :: real\<bar>
     \<le> \<bar>5 / 100\<bar> / 2 ^ 51 \<and>
   \<bar>7205759403792793 / 2 ^ 57 - 5 / \<bar>100\<bar> :: real\<bar> \<le> \<bar>5 / 100\<bar> / 2 ^ 50"
proof -
  have h: "(0::real) < 3 / 4"
    using branching_ratio_positive [OF demo_cache_ok demo_info_A_B] by simp
  have n1: "2 powi (- 1022) \<le> \<bar>100 / (3 / 4) :: real\<bar>" by simp
  have n2: "2 powi (- 1022) \<le> \<bar>5 / (3 / 4) :: real\<bar>" by simp
  have n3: "2 powi (- 1022) \<le>
     \<bar>7505999378950827 / 2 ^ 50 / (4691249611844267 / 2 ^ 45) :: real\<bar>"
    by simp
  from quotients_agree_up_to_rounding [OF h, of 100 5] obtain rel where
    run: "ancestor_quotients (Dbl 100) (Dbl 5) (Dbl (3 / 4)) =
            Inr (round64 (100 / (3 / 4)), round64 (5 / (3 / 4)), rel)"
    and b: "\<And>x y. round64 (100 / (3 / 4)) = Dbl x \<Longrightarrow> round64 (5 / (3 / 4)) = Dbl y \<Longrightarrow>
              2 powi (- 1022) \<le> \<bar>100 / (3 / 4) :: real\<bar> \<Longrightarrow>
              2 powi (- 1022) \<le> \<bar>5 / (3 / 4) :: real\<bar> \<Longrightarrow>
              \<bar>y / x - 5 / 100\<bar> \<le> \<bar>5 / 100\<bar> / 2 ^ 51 \<and>
              (\<forall>r. rel = Some (Dbl r) \<longrightarrow> 2 powi (- 1022) \<le> \<bar>y / x\<bar> \<longrightarrow>
                 \<bar>r - 5 / \<bar>100\<bar>\<bar> \<le> \<bar>5 / 100\<bar> / 2 ^ 50)"
    by blast
  from run demo_quotients have rel: "rel = Some (Dbl (7205759403792793 / 2 ^ 57))"
    by simp
  from b [OF double_activity double_uncertainty n1 n2] rel n3
  have "\<bar>7505999378950827 / 2 ^ 50 / (4691249611844267 / 2 ^ 45) - 5 / 100 :: real\<bar>
     \<le> \<bar>5 / 100\<bar> / 2 ^ 51"
    and "\<bar>7205759403792793 / 2 ^ 57 - 5 / \<bar>100\<bar> :: real\<bar> \<le> \<bar>5 / 100\<bar> / 2 ^ 50"
    by blast+
  with demo_info_A_B h run rel double_activity double_uncertainty n1 n2 n3 show ?thesis
    by blast
qed

text \<open>
  C7, as the claim states it, fails. On the small network the ancestor \<open>A\<close> of the
  measured nuclide \<open>B\<close> has the branching ratio 3/4, which is a double and which the
  code computes without rounding (the product \<open>1.0 * 0.75\<close> and the sum
  \<open>0.0 + 0.75 * 1.0\<close> are exact). For the measured activity 100 and the uncertainty 5
  the code stores the activity \<open>133.33333333333334\<close> and the activity uncertainty
  \<open>6.666666666666667\<close>; their quotient is not 5/100, neither as a real number nor as
  the double quotient, which is \<open>0.049999999999999996\<close> where \<open>5.0 / 100.0\<close> is \<open>0.05\<close>.
\<close>

theorem uncertainty_quotient_counterexample:
  "fst (get_branching_info demo_rd (demo_calc ''B'' [''A''] None (Some 5)) ''A'' ''B'') =
     Inr \<lparr>info_branching_ratio = 3 / 4,
          info_paths = [\<lparr>nodes = [''A'', ''B''], decay_modes = [alpha],
                         step_branching_fractions = [3 / 4], chain_branching_ratio = 3 / 4,
                         decay_type_fraction_at_measured = 1,
                         path_branching_ratio = 3 / 4\<rparr>],
          info_decay_type_fraction_at_measured = 1\<rparr> \<and>
   round64 (3 / 4) = Dbl (3 / 4) \<and>
   ancestor_quotients (Dbl 100) (Dbl 5) (Dbl (3 / 4)) =
     Inr (Dbl (4691249611844267 / 2 ^ 45), Dbl (7505999378950827 / 2 ^ 50),
          Some (Dbl (7205759403792793 / 2 ^ 57))) \<and>
   float_div (Dbl (7505999378950827 / 2 ^ 50)) (Dbl (4691249611844267 / 2 ^ 45)) =
     Inr (Dbl (7205759403792793 / 2 ^ 57)) \<and>
   float_div (Dbl 5) (Dbl 100) = Inr (Dbl (7205759403792794 / 2 ^ 57)) \<and>
   float_div (Dbl (7505999378950827 / 2 ^ 50)) (Dbl (4691249611844267 / 2 ^ 45)) \<noteq>
     float_div (Dbl 5) (Dbl 100) \<and>
   (7505999378950827 / 2 ^ 50 / (4691249611844267 / 2 ^ 45) :: real) \<noteq> 5 / 100"
proof -
  have q1: "float_div (Dbl (7505999378950827 / 2 ^ 50)) (Dbl (4691249611844267 / 2 ^ 45)) =
     Inr (Dbl (7205759403792793 / 2 ^ 57))"
    by (simp add: float_div_finite double_relative [simplified])
  have q2: "float_div (Dbl 5) (Dbl 100) = Inr (Dbl (7205759403792794 / 2 ^ 57))"
    by (simp add: float_div_finite double_measured_relative [simplified])
  have ne: "float_div (Dbl (7505999378950827 / 2 ^ 50)) (Dbl (4691249611844267 / 2 ^ 45)) \<noteq>
     float_div (Dbl 5) (Dbl 100)"
    unfolding q1 q2 by simp
  have ne': "(7505999378950827 / 2 ^ 50 / (4691249611844267 / 2 ^ 45) :: real) \<noteq> 5 / 100"
    by simp
  from demo_info_A_B double_three_quarters demo_quotients q1 q2 ne ne'
  show ?thesis by blast
qed

section \<open>The batch: failures\<close>

lemma calculate_abort:
  assumes "cache_ok rd s" and "fst (calculate rd s) = Inl e"
  shows "e = ZeroDivisionError \<and>
     (\<exists>p \<in> set (parent_nuclides s). \<exists>info pn.
        fst (get_branching_info rd s p (measured_nuclide s)) = Inr info \<and>
        rd p = Some pn \<and> rd_half_life_s pn = Fin 0)"
proof -
  from assms have "calculate_loop_nocache rd s (parent_nuclides s) Map.empty = Inl e"
    by (simp add: fst_calculate(1) calculate_nocache_def)
  from loop_nocache_abort [OF this] obtain p info where
    p: "p \<in> set (parent_nuclides s)"
    and nc: "branching_info_nocache rd (decay_type s) p (measured_nuclide s) = Inr info"
    and pr: "parent_result rd s p info = Inl e"
    by blast
  from nocache_ratio_pos [OF nc] have br: "info_branching_ratio info \<noteq> 0"
    by simp
  from nocache_success_parent_known [OF nc] obtain pn where pn: "rd p = Some pn"
    by blast
  from parent_result_failure [OF pr br pn] p nc pn show ?thesis
    by (auto simp: fst_branching_info(1) [OF assms(1)])
qed

text \<open>
  C4. Where \<open>calculate\<close> returns a dictionary, it has a record for every ancestor of the
  list: for an ancestor whose branching-info query fails, the failure is a
  \<open>ValueError\<close> and the record has zeroed numeric fields and the error message; for an
  ancestor whose query succeeds, the record has no error and carries the branching
  ratio. Where \<open>calculate\<close> raises, the error is a division by zero for an ancestor
  whose query succeeded and whose half-life is zero: a failed query never ends the
  loop.
\<close>

theorem failed_ancestor_does_not_abort_batch:
  assumes "cache_ok rd s"
  shows "(\<forall>out. fst (calculate rd s) = Inr out \<longrightarrow>
            dom out = set (parent_nuclides s) \<and>
            (\<forall>p \<in> set (parent_nuclides s). \<forall>e.
               fst (get_branching_info rd s p (measured_nuclide s)) = Inl e \<longrightarrow>
               (\<exists>msg r. e = ValueError msg \<and> out p = Some r \<and>
                  r = failure_result s msg \<and>
                  activity_Bq r = 0 \<and> mass_g r = Fin 0 \<and> branching_ratio r = 0 \<and>
                  halflife_yr r = Fin 0 \<and> error r = Some msg)) \<and>
            (\<forall>p \<in> set (parent_nuclides s). \<forall>info.
               fst (get_branching_info rd s p (measured_nuclide s)) = Inr info \<longrightarrow>
               (\<exists>r. out p = Some r \<and> error r = None \<and>
                    branching_ratio r = info_branching_ratio info))) \<and>
         (\<forall>e. fst (calculate rd s) = Inl e \<longrightarrow>
            e = ZeroDivisionError \<and>
            (\<exists>p \<in> set (parent_nuclides s). \<exists>info pn.
               fst (get_branching_info rd s p (measured_nuclide s)) = Inr info \<and>
               rd p = Some pn \<and> rd_half_life_s pn = Fin 0))"
proof (intro conjI allI impI ballI)
  fix out
  assume out: "fst (calculate rd s) = Inr out"
  note cr = calculate_results [OF assms out]
  show "dom out = set (parent_nuclides s)"
  proof (intro set_eqI iffI)
    fix p assume "p \<in> dom out"
    with cr show "p \<in> set (parent_nuclides s)"
      by (cases "p \<in> set (parent_nuclides s)") auto
  next
    fix p assume p: "p \<in> set (parent_nuclides s)"
    with cr show "p \<in> dom out"
      by (cases "fst (get_branching_info rd s p (measured_nuclide s))") fastforce+
  qed
  {
    fix p e
    assume p: "p \<in> set (parent_nuclides s)"
      and e: "fst (get_branching_info rd s p (measured_nuclide s)) = Inl e"
    with cr obtain msg where "e = ValueError msg" "out p = Some (failure_result s msg)"
      by fastforce
    then show "\<exists>msg r. e = ValueError msg \<and> out p = Some r \<and>
                  r = failure_result s msg \<and>
                  activity_Bq r = 0 \<and> mass_g r = Fin 0 \<and> branching_ratio r = 0 \<and>
                  halflife_yr r = Fin 0 \<and> error r = Some msg"
      by (simp add: failure_result_def)
  }
  {
    fix p info
    assume p: "p \<in> set (parent_nuclides s)"
      and i: "fst (get_branching_info rd s p (measured_nuclide s)) = Inr info"
    with cr obtain r where r: "parent_result rd s p info = Inr r" "out p = Some r"
      by fastforce
    from parent_result_success [OF r(1)] r(2)
    show "\<exists>r. out p = Some r \<and> error r = None \<and>
              branching_ratio r = info_branching_ratio info"
      by auto
  }
next
  fix e
  assume "fst (calculate rd s) = Inl e"
  from calculate_abort [OF assms this]
  show "e = ZeroDivisionError"
    and "\<exists>p \<in> set (parent_nuclides s). \<exists>info pn.
               fst (get_branching_info rd s p (measured_nuclide s)) = Inr info \<and>
               rd p = Some pn \<and> rd_half_life_s pn = Fin 0"
    by blast+
qed

lemma demo_fst_E:
  "fst (get_branching_info demo_rd demo_batch ''E'' (measured_nuclide demo_batch)) =
     Inl (ValueError (not_in_chain_msg ''D'' ''E''))"
  by (simp add: fst_branching_info(1) [OF demo_batch_ok] demo_batch_fields demo_nocache_E)

lemma demo_fst_A:
  "fst (get_branching_info demo_rd demo_batch ''A'' (measured_nuclide demo_batch)) =
     Inr demo_info"
  by (simp add: fst_branching_info(1) [OF demo_batch_ok] demo_batch_fields demo_nocache_A)

theorem failed_ancestor_does_not_abort_batch_witness:
  "cache_ok demo_rd demo_batch \<and>
   fst (calculate demo_rd demo_batch) = Inr demo_results \<and>
   parent_nuclides demo_batch = [''A'', ''E'', ''D''] \<and>
   dom demo_results = {''A'', ''E'', ''D''} \<and>
   fst (get_branching_info demo_rd demo_batch ''E'' (measured_nuclide demo_batch)) =
     Inl (ValueError (not_in_chain_msg ''D'' ''E'')) \<and>
   demo_results ''E'' = Some (failure_result demo_batch (not_in_chain_msg ''D'' ''E'')) \<and>
   error (failure_result demo_batch (not_in_chain_msg ''D'' ''E'')) =
     Some (not_in_chain_msg ''D'' ''E'') \<and>
   fst (get_branching_info demo_rd demo_batch ''A'' (measured_nuclide demo_batch)) =
     Inr demo_info \<and>
   demo_results ''A'' = Some demo_result_A \<and>
   error demo_result_A = None \<and>
   branching_ratio demo_result_A = info_branching_ratio demo_info \<and>
   demo_results ''D'' = Some demo_result_D \<and>
   error demo_result_D = None"
proof -
  note t = failed_ancestor_does_not_abort_batch [OF demo_batch_ok, THEN conjunct1,
      rule_format, OF demo_calculate]
  have d: "dom demo_results = {''A'', ''E'', ''D''}"
    using t [THEN conjunct1] by (simp add: demo_batch_fields)
  have e: "demo_results ''E'' = Some (failure_result demo_batch (not_in_chain_msg ''D'' ''E''))"
    using t [THEN conjunct2, THEN conjunct1, rule_format, of "''E''", OF _ demo_fst_E]
    by (auto simp: demo_batch_fields)
  have a: "demo_results ''A'' = Some demo_result_A"
    "demo_results ''D'' = Some demo_result_D"
    by (simp_all add: demo_results_def)
  have "branching_ratio demo_result_A = info_branching_ratio demo_info"
    using t [THEN conjunct2, THEN conjunct2, rule_format, of "''A''", OF _ demo_fst_A] a
    by (auto simp: demo_batch_fields)
  moreover have "error demo_result_A = None" "error demo_result_D = None"
    by (simp_all add: demo_result_A_def demo_result_D_def)
  ultimately show ?thesis
    using demo_batch_ok demo_calculate demo_batch_fields(3) d demo_fst_E e demo_fst_A a
      failure_result_error [of demo_batch "not_in_chain_msg ''D'' ''E''"]
    by blast
qed









text \<open>
  The one way out of the loop of \<open>calculate\<close>: the nuclide \<open>Z\<close> of the small network
  has half-life zero, its query succeeds (it is its own ancestor), and the decay
  constant divides by zero.
\<close>

lemma demo_zero_half_life_raises:
  "fst (calculate demo_rd (demo_calc ''Z'' [''Z''] None None)) = Inl ZeroDivisionError"
proof -
  let ?s = "demo_calc ''Z'' [''Z''] None None"
  have z: "demo_rd ''Z'' =
     Some \<lparr>rd_half_life_s = Fin 0, rd_atomic_mass = 1,
           rd_decay_modes = [], rd_branching_fractions = [], rd_progeny = []\<rparr>"
    by (simp add: demo_rd_def)
  have nc: "branching_info_nocache demo_rd None ''Z'' ''Z'' =
     Inr \<lparr>info_branching_ratio = 1,
          info_paths = [\<lparr>nodes = [''Z''], decay_modes = [], step_branching_fractions = [],
                         chain_branching_ratio = 1, decay_type_fraction_at_measured = 1,
                         path_branching_ratio = 1\<rparr>],
          info_decay_type_fraction_at_measured = 1\<rparr>"
    using nocache_self [of demo_rd "''Z''" _ None, OF z] by simp
  have "fst (calculate demo_rd ?s) = calculate_nocache demo_rd ?s"
    by (rule fst_calculate(1) [OF demo_cache_ok])
  also have "\<dots> = Inl ZeroDivisionError"
    by (simp add: calculate_nocache_def demo_calc_def nc parent_result_def py_div_def z)
  finally show ?thesis .
qed

end
